theory Spec2Isabelle
  imports Main "HOL-Library.Char_ord" "HOL-Library.List_Lexorder"
begin

section \<open>Measurement body retrieval: archive extraction and the fallback chain\<close>

text \<open>
  The development embeds the measurement-body retrieval of
  \<^verbatim>\<open>api/ooniapi/measurements.py\<close>: the spool probe, the peer-host probe, the
  archive probe with its index lookup, and \<^verbatim>\<open>_fetch_measurement_body\<close>, which
  orders them. Python \<^verbatim>\<open>str\<close> and \<^verbatim>\<open>bytes\<close> are both lists of \<^typ>\<open>char\<close>
  (code points below 256); string comparison is the lexicographic order of
  \<^verbatim>\<open>List_Lexorder\<close> over \<^verbatim>\<open>Char_ord\<close>, which is Python's order on such strings.
\<close>

type_synonym bytes = string

subsection \<open>Exceptions\<close>

text \<open>
  Every exception the modelled functions can raise is a value. \<open>AssertionError\<close> and
  \<open>ValueError\<close> come from the checks on a measurement uid (the \<^verbatim>\<open>assert\<close>, the
  four-way unpacking of \<^verbatim>\<open>split("_")\<close>, \<^verbatim>\<open>int(hour)\<close>); \<open>OSError\<close> is any
  failure of \<^verbatim>\<open>open\<close> other than \<^verbatim>\<open>FileNotFoundError\<close>; \<open>JSONDecodeError\<close> is
  raised by \<^verbatim>\<open>ujson\<close>; \<open>AttributeError\<close> by \<^verbatim>\<open>post.get\<close> on a value that is not
  a dict; \<open>UnexpectedFormat\<close> is \<^verbatim>\<open>Exception("Unexpected format")\<close>;
  \<open>TransportError\<close> is a failure of the HTTP request; \<open>DatabaseError\<close> a failure of
  the index query; \<open>MsmtNotFound\<close> is the class of that name. \<open>SourceUnavailable\<close>
  and \<open>CorruptArchive\<close> are the two failures of the frame decompressor.
\<close>

datatype error =
    AssertionError
  | ValueError
  | OSError
  | JSONDecodeError
  | AttributeError
  | UnexpectedFormat
  | TransportError
  | DatabaseError
  | MsmtNotFound
  | SourceUnavailable
  | CorruptArchive

text \<open>The errors with which a measurement uid is rejected as malformed.\<close>

definition MalformedIdentifier :: "error \<Rightarrow> bool" where
  "MalformedIdentifier e = (e = AssertionError \<or> e = ValueError)"

subsection \<open>Frame decompressor\<close>

record ArchiveCoordinates =
  container_path :: string
  frame_byte_offset :: nat
  frame_byte_length :: nat
  intra_frame_offset :: nat
  logical_length :: nat

text \<open>
  Modelled from the spec: \<^verbatim>\<open>decompress_autoclaved\<close> of \<^verbatim>\<open>measurements.pages\<close>, which
  only the test \<^verbatim>\<open>tests/unit/test_autoclaved.py\<close> names. The loop below is the
  algorithm of section 4.1, steps 2 to 4: the frames of the range are decompressed one
  after the other (\<open>decomp\<close> is the block decompression primitive, \<open>None\<close> when it
  fails); \<open>produced\<close> counts the decompressed bytes seen so far, \<open>yielded\<close> the bytes
  handed out; bytes are dropped until \<open>produced\<close> reaches the intra-frame offset, then
  handed out until \<open>yielded\<close> reaches the logical length, where the loop stops without
  looking at the frames that follow. The result is the sequence of chunks handed out and
  how the sequence ends: \<open>None\<close> for a normal end, \<open>Some e\<close> when the generator raises.
\<close>

fun extract_frames ::
  "('f \<Rightarrow> bytes option) \<Rightarrow> nat \<Rightarrow> nat \<Rightarrow> nat \<Rightarrow> nat \<Rightarrow> 'f list \<Rightarrow> bytes list \<times> error option"
where
  "extract_frames decomp off len produced yielded [] =
     (if len \<le> yielded then ([], None) else ([], Some CorruptArchive))"
| "extract_frames decomp off len produced yielded (f # fs) =
     (if len \<le> yielded then ([], None)
      else case decomp f of
        None \<Rightarrow> ([], Some CorruptArchive)
      | Some d \<Rightarrow>
          (let chunk = take (len - yielded) (drop (off - produced) d);
               rest = extract_frames decomp off len (produced + length d)
                        (yielded + length chunk) fs
           in (if chunk = [] then fst rest else chunk # fst rest, snd rest)))"

text \<open>
  Modelled from the spec: the contract \<^verbatim>\<open>extract\<close> of section 4.1, under the name the
  test gives it, with step 1 and the failure mode \<open>SourceUnavailable\<close>.
  \<open>read_range path offset length\<close> is the container range-read of section 6, giving
  the compressed frames of the range, or \<open>None\<close> when the container cannot be read.
\<close>

definition decompress_autoclaved ::
  "(string \<Rightarrow> nat \<Rightarrow> nat \<Rightarrow> 'f list option) \<Rightarrow> ('f \<Rightarrow> bytes option) \<Rightarrow>
   ArchiveCoordinates \<Rightarrow> bytes list \<times> error option"
where
  "decompress_autoclaved read_range decomp coords =
     (case read_range (container_path coords) (frame_byte_offset coords)
             (frame_byte_length coords) of
        None \<Rightarrow> ([], Some SourceUnavailable)
      | Some frames \<Rightarrow>
          extract_frames decomp (intra_frame_offset coords) (logical_length coords) 0 0 frames)"

subsection \<open>String operations of the source\<close>

text \<open>\<^verbatim>\<open>s.split(c)\<close> for a separator of one character: it never returns an empty list.\<close>

fun split_on :: "char \<Rightarrow> string \<Rightarrow> string list" where
  "split_on c [] = [[]]"
| "split_on c (x # xs) =
     (if x = c then [] # split_on c xs
      else case split_on c xs of [] \<Rightarrow> [[x]] | w # ws \<Rightarrow> (x # w) # ws)"

definition startswith :: "string \<Rightarrow> string \<Rightarrow> bool" where
  "startswith s p = (take (length p) s = p)"

definition isdigit :: "char \<Rightarrow> bool" where
  "isdigit c = (c \<in> set ''0123456789'')"

text \<open>
  The white space \<^verbatim>\<open>int\<close> skips around a number: tab to carriage return and the space,
  and of the code points from 128 on, 0x85 and 0xA0. The separators 0x1C to 0x1F, which
  \<^verbatim>\<open>str.isspace\<close> counts, are not skipped: \<^verbatim>\<open>int\<close> raises on them.
\<close>

definition isspace :: "char \<Rightarrow> bool" where
  "isspace c = (c \<in> set [CHR 0x09, CHR 0x0A, CHR 0x0B, CHR 0x0C, CHR 0x0D, CHR 0x20,
                           CHR 0x85, CHR 0xA0])"

definition strip :: "string \<Rightarrow> string" where
  "strip s = rev (dropWhile isspace (rev (dropWhile isspace s)))"

text \<open>Decimal digits, with single underscores allowed between two digits.\<close>

fun digits_us :: "string \<Rightarrow> bool" where
  "digits_us [] = False"
| "digits_us [c] = isdigit c"
| "digits_us (c # d # r) =
     (isdigit c \<and> (if d = CHR ''_'' then digits_us r else digits_us (d # r)))"

text \<open>
  Whether \<^verbatim>\<open>int(s)\<close> returns rather than raising \<^verbatim>\<open>ValueError\<close>: surrounding
  whitespace is stripped, one sign is allowed, then come the digits. The source calls
  \<^verbatim>\<open>int\<close> only for this check and drops the number.
\<close>

definition int_parses :: "string \<Rightarrow> bool" where
  "int_parses s =
     (case strip s of
        [] \<Rightarrow> False
      | c # r \<Rightarrow> if c = CHR ''+'' \<or> c = CHR ''-'' then digits_us r else digits_us (c # r))"

subsection \<open>The world the probes read\<close>

datatype json =
    JNull
  | JBool bool
  | JNum int
  | JStr string
  | JArr "json list"
  | JObj "(string \<times> json) list"

datatype file_result = FileNotFound | OpenFails | FileContent bytes

datatype http_result = RequestFails | Response nat bytes

text \<open>
  What a call reads is fixed by an environment: the spool directory as \<^verbatim>\<open>open\<close>
  sees it, the configured peer hosts and what a GET of a URL gives, the two tables of the
  index (\<open>fastpath\<close> rows are measurement uid, report id, input; \<open>jsonl\<close> rows are
  report id, input, s3path, linenum) with \<open>click_up\<close> false when the query itself
  fails, and the lines of each S3 object as \<^verbatim>\<open>GzipFile\<close> iterates them (\<open>None\<close> when
  the download fails). \<^verbatim>\<open>ujson.loads\<close>, \<^verbatim>\<open>ujson.dumps\<close> and \<^verbatim>\<open>urljoin\<close> are library
  functions and are taken as they are.
\<close>

record env =
  spool_open :: "string \<Rightarrow> file_result"
  OTHER_COLLECTORS :: "string list"
  http_request :: "string \<Rightarrow> http_result"
  ujson_loads :: "bytes \<Rightarrow> json option"
  ujson_dumps :: "json \<Rightarrow> bytes"
  urljoin :: "string \<Rightarrow> string \<Rightarrow> string"
  click_up :: bool
  fastpath :: "(string \<times> string \<times> string) list"
  jsonl :: "(string \<times> string \<times> string \<times> int) list"
  S3_BUCKET_NAME :: string
  s3_lines :: "string \<Rightarrow> bytes list option"

text \<open>Each access to a source is recorded, in the order the accesses happen.\<close>

datatype event =
    SpoolOpen string
  | HttpGet string
  | QueryByUid string
  | QueryByReport string string
  | S3Get string

datatype source = Spool | Peers | Archive

fun source_of :: "event \<Rightarrow> source" where
  "source_of (SpoolOpen p) = Spool"
| "source_of (HttpGet u) = Peers"
| "source_of (QueryByUid u) = Archive"
| "source_of (QueryByReport r i) = Archive"
| "source_of (S3Get u) = Archive"

text \<open>
  A call gives what it returns or raises, and the accesses it made. A probe returns
  \<open>Some body\<close> or Python's \<^verbatim>\<open>None\<close>.
\<close>

type_synonym 'a io = "(error + 'a) \<times> event list"

type_synonym probe = "bytes option io"

subsection \<open>Spool probe and peer-host probe\<close>

definition unwrap_post :: "json \<Rightarrow> error + json" where
  "unwrap_post post =
     (case post of
        JObj kvs \<Rightarrow>
          (case map_of kvs ''format'' of
             Some (JStr fmt) \<Rightarrow>
               if fmt = ''json''
               then Inr (case map_of kvs ''content'' of Some c \<Rightarrow> c | None \<Rightarrow> JObj [])
               else Inl UnexpectedFormat
           | _ \<Rightarrow> Inl UnexpectedFormat)
      | _ \<Rightarrow> Inl AttributeError)"

text \<open>
  The statements both probes begin with: the \<^verbatim>\<open>assert\<close>, the unpacking of
  \<^verbatim>\<open>msmt_uid.split("_")\<close> into exactly four names, \<^verbatim>\<open>hour = tstamp[:10]\<close>,
  \<^verbatim>\<open>int(hour)\<close>, and only then the path below the spool directory.
\<close>

definition spool_path :: "string \<Rightarrow> error + string" where
  "spool_path msmt_uid =
     (if \<not> startswith msmt_uid ''20'' then Inl AssertionError
      else case split_on CHR ''_'' msmt_uid of
        [tstamp, cc, testname, hash] \<Rightarrow>
          (let hour = take 10 tstamp
           in if \<not> int_parses hour then Inl ValueError
              else Inr (hour @ ''_'' @ cc @ ''_'' @ testname @ ''/'' @ msmt_uid @ ''.post''))
      | _ \<Rightarrow> Inl ValueError)"

definition spooldir :: string where
  "spooldir = ''/var/lib/ooniapi/measurements/incoming/''"

definition fetch_measurement_body_on_disk_by_msmt_uid :: "env \<Rightarrow> string \<Rightarrow> probe" where
  "fetch_measurement_body_on_disk_by_msmt_uid env msmt_uid =
     (case spool_path msmt_uid of
        Inl e \<Rightarrow> (Inl e, [])
      | Inr path \<Rightarrow>
          (let postf = spooldir @ path
           in case spool_open env postf of
                FileNotFound \<Rightarrow> (Inr None, [SpoolOpen postf])
              | OpenFails \<Rightarrow> (Inl OSError, [SpoolOpen postf])
              | FileContent data \<Rightarrow>
                  (case ujson_loads env data of
                     None \<Rightarrow> (Inl JSONDecodeError, [SpoolOpen postf])
                   | Some post \<Rightarrow>
                       (case unwrap_post post of
                          Inl e \<Rightarrow> (Inl e, [SpoolOpen postf])
                        | Inr body \<Rightarrow> (Inr (Some (ujson_dumps env body)), [SpoolOpen postf])))))"

text \<open>
  \<open>peer_url\<close> is the URL asked of a host. The loop over \<^verbatim>\<open>OTHER_COLLECTORS\<close>: a failed request, a status other than 200, a
  payload that does not parse and a wrapper that does not unwrap all go on to the next
  host; the first host that answers 200 with a wrapper of format \<^verbatim>\<open>json\<close> ends the loop.
\<close>

definition peer_url :: "env \<Rightarrow> string \<Rightarrow> string \<Rightarrow> string" where
  "peer_url env path hostname = urljoin env (''https://'' @ hostname @ ''/measurement_spool/'') path"

fun hosts_loop :: "env \<Rightarrow> string \<Rightarrow> string list \<Rightarrow> probe" where
  "hosts_loop env path [] = (Inr None, [])"
| "hosts_loop env path (hostname # hostnames) =
     (let url = peer_url env path hostname;
          continue = (fst (hosts_loop env path hostnames),
                      HttpGet url # snd (hosts_loop env path hostnames))
      in case http_request env url of
           RequestFails \<Rightarrow> continue
         | Response status data \<Rightarrow>
             if status = 404 then continue
             else if status \<noteq> 200 then continue
             else (case ujson_loads env data of
                     None \<Rightarrow> continue
                   | Some post \<Rightarrow>
                       (case unwrap_post post of
                          Inl e \<Rightarrow> continue
                        | Inr body \<Rightarrow> (Inr (Some (ujson_dumps env body)), [HttpGet url]))))"

definition fetch_measurement_body_from_hosts :: "env \<Rightarrow> string \<Rightarrow> probe" where
  "fetch_measurement_body_from_hosts env msmt_uid =
     (case spool_path msmt_uid of
        Inl e \<Rightarrow> (Inr None, [])
      | Inr path \<Rightarrow> hosts_loop env path (OTHER_COLLECTORS env))"

subsection \<open>Archive probe\<close>

text \<open>
  The query of \<^verbatim>\<open>measurement_uid_to_s3path_linenum\<close>: the inner \<^verbatim>\<open>SELECT\<close> collects
  the (report id, input) pairs of the \<open>fastpath\<close> rows with the given uid, the outer
  one keeps the \<open>jsonl\<close> rows whose pair is among them, and \<^verbatim>\<open>LIMIT 1\<close> with
  \<^verbatim>\<open>query_click_one_row\<close> gives the first of these rows, or \<^verbatim>\<open>None\<close>.
\<close>

definition measurement_uid_to_s3path_linenum :: "env \<Rightarrow> string \<Rightarrow> (string \<times> int) io" where
  "measurement_uid_to_s3path_linenum env measurement_uid =
     (if \<not> click_up env then (Inl DatabaseError, [QueryByUid measurement_uid])
      else
        let pairs = map snd (filter (\<lambda>row. fst row = measurement_uid) (fastpath env));
            lookup = filter (\<lambda>(r, i, s, l). (r, i) \<in> set pairs) (jsonl env)
        in case lookup of
             [] \<Rightarrow> (Inl MsmtNotFound, [QueryByUid measurement_uid])
           | (r, i, s3path, linenum) # _ \<Rightarrow> (Inr (s3path, linenum), [QueryByUid measurement_uid]))"

definition report_id_input_to_s3path_linenum ::
  "env \<Rightarrow> string \<Rightarrow> string \<Rightarrow> (string \<times> int) io"
where
  "report_id_input_to_s3path_linenum env report_id inp =
     (if \<not> click_up env then (Inl DatabaseError, [QueryByReport report_id inp])
      else
        case filter (\<lambda>(r, i, s, l). r = report_id \<and> i = inp) (jsonl env) of
          [] \<Rightarrow> (Inl MsmtNotFound, [QueryByReport report_id inp])
        | (r, i, s3path, linenum) # _ \<Rightarrow> (Inr (s3path, linenum), [QueryByReport report_id inp]))"

definition fetch_jsonl_measurement_body_from_s3 :: "env \<Rightarrow> string \<Rightarrow> int \<Rightarrow> bytes io" where
  "fetch_jsonl_measurement_body_from_s3 env s3path linenum =
     (let url = urljoin env (''https://'' @ S3_BUCKET_NAME env @ ''.s3.amazonaws.com/'') s3path
      in case s3_lines env url of
           None \<Rightarrow> (Inl TransportError, [S3Get url])
         | Some lines \<Rightarrow>
             if 0 \<le> linenum \<and> nat linenum < length lines
             then (Inr (lines ! nat linenum), [S3Get url])
             else (Inl MsmtNotFound, [S3Get url]))"

text \<open>
  With a uid only \<^verbatim>\<open>MsmtNotFound\<close> from the lookup is caught; in the other branch and
  around the download every exception is.
\<close>

definition fetch_jsonl_measurement_body_clickhouse ::
  "env \<Rightarrow> string \<Rightarrow> string option \<Rightarrow> string option \<Rightarrow> probe"
where
  "fetch_jsonl_measurement_body_clickhouse env report_id input measurement_uid =
     (let located =
            (case measurement_uid of
               Some uid \<Rightarrow>
                 (case measurement_uid_to_s3path_linenum env uid of
                    (Inl e, t) \<Rightarrow> if e = MsmtNotFound then (Inr None, t) else (Inl e, t)
                  | (Inr row, t) \<Rightarrow> (Inr (Some row), t))
             | None \<Rightarrow>
                 (let inp = (case input of None \<Rightarrow> [] | Some i \<Rightarrow> i)
                  in case report_id_input_to_s3path_linenum env report_id inp of
                       (Inl e, t) \<Rightarrow> (Inr None, t)
                     | (Inr row, t) \<Rightarrow> (Inr (Some row), t)))
      in case located of
           (Inl e, t) \<Rightarrow> (Inl e, t)
         | (Inr None, t) \<Rightarrow> (Inr None, t)
         | (Inr (Some (s3path, linenum)), t) \<Rightarrow>
             (case fetch_jsonl_measurement_body_from_s3 env s3path linenum of
                (Inl e, t') \<Rightarrow> (Inr None, t @ t')
              | (Inr line, t') \<Rightarrow> (Inr (Some line), t @ t')))"

subsection \<open>Freshness\<close>

text \<open>
  The clock is an argument: \<open>now\<close> is what \<^verbatim>\<open>datetime.utcnow()\<close> returns.
  \<open>minus_one_hour\<close> is the subtraction of \<^verbatim>\<open>timedelta(hours=1)\<close> in the proleptic
  Gregorian calendar, and \<open>strftime_YmdHM\<close> is \<^verbatim>\<open>strftime("%Y%m%d%H%M")\<close>: twelve
  digits, the seconds dropped.
\<close>

record datetime =
  dt_year :: nat
  dt_month :: nat
  dt_day :: nat
  dt_hour :: nat
  dt_minute :: nat
  dt_second :: nat

definition is_leap :: "nat \<Rightarrow> bool" where
  "is_leap y = (y mod 4 = 0 \<and> (y mod 100 \<noteq> 0 \<or> y mod 400 = 0))"

definition days_in_month :: "nat \<Rightarrow> nat \<Rightarrow> nat" where
  "days_in_month y m =
     (if m = 2 then (if is_leap y then 29 else 28)
      else if m = 4 \<or> m = 6 \<or> m = 9 \<or> m = 11 then 30 else 31)"

definition minus_one_hour :: "datetime \<Rightarrow> datetime" where
  "minus_one_hour dt =
     (if 0 < dt_hour dt then dt\<lparr>dt_hour := dt_hour dt - 1\<rparr>
      else if 1 < dt_day dt then dt\<lparr>dt_day := dt_day dt - 1, dt_hour := 23\<rparr>
      else if 1 < dt_month dt
        then dt\<lparr>dt_month := dt_month dt - 1,
                dt_day := days_in_month (dt_year dt) (dt_month dt - 1), dt_hour := 23\<rparr>
      else dt\<lparr>dt_year := dt_year dt - 1, dt_month := 12, dt_day := 31, dt_hour := 23\<rparr>)"

definition digit :: "nat \<Rightarrow> char" where
  "digit n = ''0123456789'' ! (n mod 10)"

definition digits2 :: "nat \<Rightarrow> string" where
  "digits2 n = [digit (n div 10), digit n]"

definition digits4 :: "nat \<Rightarrow> string" where
  "digits4 n = [digit (n div 1000), digit (n div 100), digit (n div 10), digit n]"

definition strftime_YmdHM :: "datetime \<Rightarrow> string" where
  "strftime_YmdHM dt =
     digits4 (dt_year dt) @ digits2 (dt_month dt) @ digits2 (dt_day dt) @
     digits2 (dt_hour dt) @ digits2 (dt_minute dt)"

subsection \<open>The orchestrator\<close>

text \<open>Python's truth value of a probe's result: \<^verbatim>\<open>None\<close> and \<^verbatim>\<open>b""\<close> are false.\<close>

definition truthy :: "bytes option \<Rightarrow> bool" where
  "truthy r = (case r of None \<Rightarrow> False | Some b \<Rightarrow> b \<noteq> [])"

text \<open>
  \<^verbatim>\<open>a or b\<close>: \<open>b\<close> runs only when \<open>a\<close> returned a false value, and an exception of
  \<open>a\<close> passes through.
\<close>

definition or_else :: "probe \<Rightarrow> probe \<Rightarrow> probe" where
  "or_else a b =
     (case a of
        (Inl e, t) \<Rightarrow> (Inl e, t)
      | (Inr r, t) \<Rightarrow> if truthy r then (Inr r, t) else (fst b, t @ snd b))"

text \<open>The end of \<^verbatim>\<open>_fetch_measurement_body\<close>: \<^verbatim>\<open>if body: return body\<close>, else \<^verbatim>\<open>raise MsmtNotFound\<close>.\<close>

definition return_or_raise :: "probe \<Rightarrow> bytes io" where
  "return_or_raise body =
     (case body of
        (Inl e, t) \<Rightarrow> (Inl e, t)
      | (Inr None, t) \<Rightarrow> (Inl MsmtNotFound, t)
      | (Inr (Some b), t) \<Rightarrow> if b \<noteq> [] then (Inr b, t) else (Inl MsmtNotFound, t))"

text \<open>
  The body of \<^verbatim>\<open>_fetch_measurement_body\<close> from the two flags on, given what each of
  the three calls would do: the three branches with their order of calls, then the end.
\<close>

definition fetch_in_order :: "bool \<Rightarrow> bool \<Rightarrow> probe \<Rightarrow> probe \<Rightarrow> probe \<Rightarrow> bytes io" where
  "fetch_in_order new_format fresh on_disk from_hosts clickhouse =
     return_or_raise
       (if new_format \<and> fresh then or_else on_disk (or_else from_hosts clickhouse)
        else if new_format \<and> \<not> fresh then or_else clickhouse (or_else on_disk from_hosts)
        else clickhouse)"

text \<open>
  \<open>new_format\<close> needs five underscores in the report id and a uid that is neither
  \<^verbatim>\<open>None\<close> nor empty; \<open>fresh\<close> is assigned only then, by comparing the uid as a
  string with the rendering of the time one hour ago.
\<close>

definition new_format :: "string \<Rightarrow> string option \<Rightarrow> bool" where
  "new_format report_id measurement_uid =
     (count_list report_id CHR ''_'' = 5 \<and> truthy measurement_uid)"

definition fresh :: "datetime \<Rightarrow> string \<Rightarrow> bool" where
  "fresh now measurement_uid = (strftime_YmdHM (minus_one_hour now) < measurement_uid)"

definition fetch_measurement_body ::
  "env \<Rightarrow> datetime \<Rightarrow> string \<Rightarrow> string option \<Rightarrow> string option \<Rightarrow> bytes io"
where
  "fetch_measurement_body env now report_id input measurement_uid =
     (let uid = (case measurement_uid of None \<Rightarrow> [] | Some u \<Rightarrow> u)
      in fetch_in_order (new_format report_id measurement_uid)
           (new_format report_id measurement_uid \<and> fresh now uid)
           (fetch_measurement_body_on_disk_by_msmt_uid env uid)
           (fetch_measurement_body_from_hosts env uid)
           (fetch_jsonl_measurement_body_clickhouse env report_id input measurement_uid))"

subsection \<open>Notions the properties are stated against\<close>

text \<open>A probe result with an empty body replaced by \<^verbatim>\<open>None\<close>.\<close>

definition empty_as_none :: "probe \<Rightarrow> probe" where
  "empty_as_none p =
     (case p of (Inr (Some b), t) \<Rightarrow> if b = [] then (Inr None, t) else p | _ \<Rightarrow> p)"

text \<open>
  The peer-host protocol in the words of section 6 of the specification: what the answer
  of one host is worth. Status 404 is not present; status 200 with
  a wrapper object whose format is \<^verbatim>\<open>json\<close> gives the content payload, serialised
  again (an empty object when the wrapper has no content); everything else is not present.
\<close>

definition peer_answer :: "env \<Rightarrow> string \<Rightarrow> bytes option" where
  "peer_answer env url =
     (case http_request env url of
        RequestFails \<Rightarrow> None
      | Response status data \<Rightarrow>
          if status = 404 then None
          else if status = 200 then
            (case ujson_loads env data of
               Some (JObj kvs) \<Rightarrow>
                 if map_of kvs ''format'' = Some (JStr ''json'')
                 then Some (ujson_dumps env
                        (case map_of kvs ''content'' of Some c \<Rightarrow> c | None \<Rightarrow> JObj []))
                 else None
             | _ \<Rightarrow> None)
          else None)"

text \<open>
  The second flag \<^verbatim>\<open>_fetch_measurement_body\<close> branches on: a request is treated as
  fresh when it is in the new format and its uid compares above the rendered time.
\<close>

definition classified_fresh :: "datetime \<Rightarrow> string \<Rightarrow> string option \<Rightarrow> bool" where
  "classified_fresh now report_id measurement_uid =
     (new_format report_id measurement_uid \<and>
      fresh now (case measurement_uid of None \<Rightarrow> [] | Some u \<Rightarrow> u))"

text \<open>
  Freshness in the words of the specification: the timestamp at the start of a uid, 14
  digits for year, month, day, hour, minute and second, lies within the hour that ends at
  the current time. Times are compared through \<open>dt_stamp\<close>, which orders them as the
  calendar does.
\<close>

definition number :: "string \<Rightarrow> nat option" where
  "number s =
     (if s \<noteq> [] \<and> list_all isdigit s
      then Some (foldl (\<lambda>n c. 10 * n + (of_char c - 48)) 0 s) else None)"

definition uid_timestamp :: "string \<Rightarrow> datetime option" where
  "uid_timestamp uid =
     (case (number (take 4 uid), number (take 2 (drop 4 uid)), number (take 2 (drop 6 uid)),
            number (take 2 (drop 8 uid)), number (take 2 (drop 10 uid)),
            number (take 2 (drop 12 uid))) of
        (Some y, Some mo, Some d, Some h, Some mi, Some s) \<Rightarrow>
          Some \<lparr>dt_year = y, dt_month = mo, dt_day = d, dt_hour = h, dt_minute = mi,
                dt_second = s\<rparr>
      | _ \<Rightarrow> None)"

definition dt_stamp :: "datetime \<Rightarrow> nat" where
  "dt_stamp dt =
     ((((dt_year dt * 100 + dt_month dt) * 100 + dt_day dt) * 100 + dt_hour dt) * 100
        + dt_minute dt) * 100 + dt_second dt"

definition within_last_hour :: "datetime \<Rightarrow> string \<Rightarrow> bool" where
  "within_last_hour now uid =
     (case uid_timestamp uid of
        None \<Rightarrow> False
      | Some t \<Rightarrow> dt_stamp (minus_one_hour now) \<le> dt_stamp t \<and> dt_stamp t \<le> dt_stamp now)"

text \<open>
  A numeric string in the plain sense, one or more decimal digits, and a string without
  the white space at its end.
\<close>

definition all_digits :: "string \<Rightarrow> bool" where
  "all_digits s = (s \<noteq> [] \<and> list_all isdigit s)"

definition rstrip :: "string \<Rightarrow> string" where
  "rstrip s = rev (dropWhile isspace (rev s))"

subsection \<open>Example inputs\<close>

text \<open>
  A clock, two report ids (the current format with five underscores, and an older one),
  and an environment with two peer hosts in which each of three measurements is held by
  one source only: \<open>uid_in_spool\<close> by the local spool, \<open>uid_on_peer\<close> by the second
  peer (the first one is unreachable), \<open>uid_in_archive\<close> by the archive. All three
  carry a timestamp ten minutes before the clock. A fourth, \<open>uid_delayed\<close>, is a day
  old and still in the spool. The toy \<^verbatim>\<open>ujson\<close> reads two
  wrappers and writes one body.
\<close>

definition now_example :: datetime where
  "now_example = \<lparr>dt_year = 2026, dt_month = 11, dt_day = 4, dt_hour = 16, dt_minute = 50,
                   dt_second = 45\<rparr>"

definition report_id_example :: string where
  "report_id_example = ''20261104T163000Z_webconnectivity_IT_30722_n1_Ojb3Wdk2''"

definition old_report_id_example :: string where
  "old_report_id_example = ''20180101T000000Z_AS30722_Zq5Wdk2hXq''"

definition uid_in_spool :: string where
  "uid_in_spool = ''20261104164000_IT_webconnectivity_aaaa''"

definition uid_on_peer :: string where
  "uid_on_peer = ''20261104164000_IT_webconnectivity_bbbb''"

definition uid_in_archive :: string where
  "uid_in_archive = ''20261104164000_IT_webconnectivity_cccc''"

definition uid_delayed :: string where
  "uid_delayed = ''20261103120000_IT_webconnectivity_eeee''"

definition loads_example :: "bytes \<Rightarrow> json option" where
  "loads_example b =
     (if b = ''{format: json, content: {test_name: web_connectivity}}''
      then Some (JObj [(''format'', JStr ''json''),
                       (''content'', JObj [(''test_name'', JStr ''web_connectivity'')])])
      else if b = ''{format: yaml, content: ...}''
      then Some (JObj [(''format'', JStr ''yaml''), (''content'', JStr ''...'')])
      else None)"

definition dumps_example :: "json \<Rightarrow> bytes" where
  "dumps_example j =
     (if j = JObj [(''test_name'', JStr ''web_connectivity'')]
      then ''{test_name: web_connectivity}'' else ''{}'')"

definition env_example :: env where
  "env_example =
     \<lparr>spool_open = (\<lambda>p.
        if p = ''/var/lib/ooniapi/measurements/incoming/2026110416_IT_webconnectivity/20261104164000_IT_webconnectivity_aaaa.post''
        then FileContent ''{format: json, content: {test_name: web_connectivity}}''
        else if p = ''/var/lib/ooniapi/measurements/incoming/2026110312_IT_webconnectivity/20261103120000_IT_webconnectivity_eeee.post''
        then FileContent ''{format: json, content: {test_name: web_connectivity}}''
        else FileNotFound),
      OTHER_COLLECTORS = [''ams-ps.ooni.nu'', ''backend-hel.ooni.org''],
      http_request = (\<lambda>u.
        if u = ''https://backend-hel.ooni.org/measurement_spool/2026110416_IT_webconnectivity/20261104164000_IT_webconnectivity_bbbb.post''
        then Response 200 ''{format: json, content: {test_name: web_connectivity}}''
        else if take 22 u = ''https://ams-ps.ooni.nu'' then RequestFails
        else Response 404 []),
      ujson_loads = loads_example,
      ujson_dumps = dumps_example,
      urljoin = (\<lambda>base path. base @ path),
      click_up = True,
      fastpath = [(''20261104164000_IT_webconnectivity_cccc'',
                   ''20261104T163000Z_webconnectivity_IT_30722_n1_Ojb3Wdk2'', ''https://example.org/'')],
      jsonl = [(''20261104T163000Z_webconnectivity_IT_30722_n1_Ojb3Wdk2'', ''https://example.org/'',
                ''raw/20261104/16/IT/webconnectivity/2026110416_IT_webconnectivity.n1.0.jsonl.gz'', 1)],
      S3_BUCKET_NAME = ''ooni-data-eu-fra'',
      s3_lines = (\<lambda>u.
        if u = ''https://ooni-data-eu-fra.s3.amazonaws.com/raw/20261104/16/IT/webconnectivity/2026110416_IT_webconnectivity.n1.0.jsonl.gz''
        then Some [''{test_name: ndt}'', ''{test_name: web_connectivity}'']
        else None)\<rparr>"

section \<open>Properties of the frame decompressor\<close>

text \<open>One step of the loop on a frame that decompresses, while bytes are still owed.\<close>

lemma extract_frames_Cons:
  assumes "\<not> len \<le> y" "decomp f = Some d"
  shows "snd (extract_frames decomp off len p y (f # fs)) =
           snd (extract_frames decomp off len (p + length d)
                 (y + length (take (len - y) (drop (off - p) d))) fs)"
    and "concat (fst (extract_frames decomp off len p y (f # fs))) =
           take (len - y) (drop (off - p) d) @
           concat (fst (extract_frames decomp off len (p + length d)
                 (y + length (take (len - y) (drop (off - p) d))) fs))"
  using assms by (simp_all add: Let_def del: length_take length_drop)

lemma extract_frames_enough:
  "map decomp pre = map Some ds \<Longrightarrow> (len - y) + (off - p) \<le> length (concat ds) \<Longrightarrow>
   snd (extract_frames decomp off len p y (pre @ post)) = None \<and>
   concat (fst (extract_frames decomp off len p y (pre @ post))) =
     take (len - y) (drop (off - p) (concat ds))"
proof (induction pre arbitrary: p y ds)
  case Nil
  then have "len \<le> y" by simp
  then show ?case by (cases post) auto
next
  case (Cons f pre)
  then obtain d ds' where ds: "ds = d # ds'" "decomp f = Some d" "map decomp pre = map Some ds'"
    by (cases ds) auto
  show ?case
  proof (cases "len \<le> y")
    case True
    then show ?thesis by auto
  next
    case False
    define chunk where "chunk = take (len - y) (drop (off - p) d)"
    have enough: "(len - (y + length chunk)) + (off - (p + length d)) \<le> length (concat ds')"
      using Cons.prems(2) False unfolding ds chunk_def by (auto simp: min_def split: if_splits)
    note ih = Cons.IH[OF ds(3) enough]
    have "chunk @ take (len - (y + length chunk)) (drop (off - (p + length d)) (concat ds'))
          = take (len - y) (drop (off - p) (concat ds))"
      unfolding ds(1) chunk_def by (auto simp: min_def)
    with ih show ?thesis
      unfolding append_Cons extract_frames_Cons[where decomp=decomp and f=f, OF False ds(2)] chunk_def by simp
  qed
qed

lemma extract_frames_length:
  "snd (extract_frames decomp off len p y fs) = None \<Longrightarrow>
   length (concat (fst (extract_frames decomp off len p y fs))) = len - y"
proof (induction fs arbitrary: p y)
  case Nil then show ?case by (auto split: if_splits)
next
  case (Cons f fs)
  show ?case
  proof (cases "len \<le> y")
    case True then show ?thesis by simp
  next
    case False
    show ?thesis
    proof (cases "decomp f")
      case None with Cons.prems False show ?thesis by simp
    next
      case (Some d)
      define chunk where "chunk = take (len - y) (drop (off - p) d)"
      have s: "snd (extract_frames decomp off len (p + length d) (y + length chunk) fs) = None"
        using Cons.prems unfolding extract_frames_Cons[where decomp=decomp and f=f, OF False Some] chunk_def .
      have l: "length chunk \<le> len - y" by (simp add: chunk_def)
      have "length (concat (fst (extract_frames decomp off len p y (f # fs)))) =
            length chunk + (len - (y + length chunk))"
        unfolding extract_frames_Cons[where decomp=decomp and f=f, OF False Some] chunk_def[symmetric]
        using Cons.IH[OF s] by simp
      with l show ?thesis by simp
    qed
  qed
qed

lemma extract_frames_short:
  "map decomp fs = map Some ds \<Longrightarrow> length (concat ds) - (off - p) < len - y \<Longrightarrow>
   snd (extract_frames decomp off len p y fs) = Some CorruptArchive
   \<and> length (concat (fst (extract_frames decomp off len p y fs))) < len - y"
proof (induction fs arbitrary: p y ds)
  case Nil then show ?case by auto
next
  case (Cons f fs)
  then obtain d ds' where ds: "ds = d # ds'" "decomp f = Some d" "map decomp fs = map Some ds'"
    by (cases ds) auto
  define chunk where "chunk = take (len - y) (drop (off - p) d)"
  have ny: "\<not> len \<le> y" using Cons.prems(2) by simp
  have short: "length (concat ds') - (off - (p + length d)) < len - (y + length chunk)"
    using Cons.prems(2) unfolding ds chunk_def by (auto simp: min_def split: if_splits)
  have l: "length chunk \<le> len - y" by (simp add: chunk_def)
  from Cons.IH[OF ds(3) short]
  have "snd (extract_frames decomp off len p y (f # fs)) = Some CorruptArchive"
    and "length (concat (fst (extract_frames decomp off len p y (f # fs)))) <
           length chunk + (len - (y + length chunk))"
    unfolding extract_frames_Cons[where decomp=decomp and f=f, OF ny ds(2)] chunk_def[symmetric] by simp_all
  with l show ?case by simp
qed

text \<open>
  C1. Byte-exactness. When the frames of the range that are needed decompress (\<open>pre\<close>,
  with decompressed contents \<open>ds\<close>; the frames \<open>post\<close> after them are arbitrary and
  may even be corrupt) and hold at least \<open>intra_frame_offset + logical_length\<close> bytes,
  the sequence of chunks ends normally, its concatenation is the record, that is the
  \<open>logical_length\<close> bytes at \<open>intra_frame_offset\<close> of the decompressed stream, it has
  exactly \<open>logical_length\<close> bytes, and so any digest of it is the digest of the record.
  Nothing is assumed on where the record lies in its frames: offset zero or not, ending
  at a frame boundary or not, in one frame or across several.
\<close>

theorem decompress_autoclaved_byte_exact:
  assumes "read_range (container_path coords) (frame_byte_offset coords)
             (frame_byte_length coords) = Some (pre @ post)"
    and "map decomp pre = map Some ds"
    and "intra_frame_offset coords + logical_length coords \<le> length (concat ds)"
  shows "snd (decompress_autoclaved read_range decomp coords) = None \<and>
         concat (fst (decompress_autoclaved read_range decomp coords)) =
           take (logical_length coords) (drop (intra_frame_offset coords) (concat ds)) \<and>
         length (concat (fst (decompress_autoclaved read_range decomp coords))) =
           logical_length coords \<and>
         digest (concat (fst (decompress_autoclaved read_range decomp coords))) =
           digest (take (logical_length coords) (drop (intra_frame_offset coords) (concat ds)))"
proof -
  have enough: "(logical_length coords - 0) + (intra_frame_offset coords - 0) \<le> length (concat ds)"
    using assms(3) by simp
  from extract_frames_enough[OF assms(2) enough, of post]
  have r: "snd (decompress_autoclaved read_range decomp coords) = None"
    "concat (fst (decompress_autoclaved read_range decomp coords)) =
       take (logical_length coords) (drop (intra_frame_offset coords) (concat ds))"
    by (simp_all add: decompress_autoclaved_def assms(1))
  have "length (take (logical_length coords) (drop (intra_frame_offset coords) (concat ds))) =
        logical_length coords"
    using assms(3) by simp
  with r show ?thesis by simp
qed

text \<open>
  A record that starts in the middle of the first frame, covers the second and ends in
  the middle of the third, with a fourth frame that does not decompress.
\<close>

theorem decompress_autoclaved_byte_exact_witness:
  "decompress_autoclaved (\<lambda>path off n. Some [''abc'', ''defg'', ''hi'', ''!''])
     (\<lambda>f. if f = ''!'' then None else Some f)
     \<lparr>container_path = ''2013-05-06/tcp_connect.0.tar.lz4'', frame_byte_offset = 0,
      frame_byte_length = 10, intra_frame_offset = 2, logical_length = 6\<rparr>
   = ([''c'', ''defg'', ''h''], None) \<and>
   length (concat (fst (decompress_autoclaved (\<lambda>path off n. Some [''abc'', ''defg'', ''hi'', ''!''])
     (\<lambda>f. if f = ''!'' then None else Some f)
     \<lparr>container_path = ''2013-05-06/tcp_connect.0.tar.lz4'', frame_byte_offset = 0,
      frame_byte_length = 10, intra_frame_offset = 2, logical_length = 6\<rparr>))) = 6"
  using decompress_autoclaved_byte_exact
    [of "\<lambda>path off n. Some [''abc'', ''defg'', ''hi'', ''!'']"
        "\<lparr>container_path = ''2013-05-06/tcp_connect.0.tar.lz4'', frame_byte_offset = 0,
          frame_byte_length = 10, intra_frame_offset = 2, logical_length = 6\<rparr>"
        "[''abc'', ''defg'', ''hi'']" "[''!'']"
        "\<lambda>f. if f = ''!'' then None else Some f" "[''abc'', ''defg'', ''hi'']" id]
  by (simp add: decompress_autoclaved_def)

text \<open>
  C2. Truncation detection. For coordinates with a positive logical length, when every
  frame of the range decompresses and the decompressed content has fewer than
  \<open>intra_frame_offset + logical_length\<close> bytes, the sequence of chunks ends in
  \<open>CorruptArchive\<close>. And whatever the container holds, a sequence that ends normally
  has handed out exactly \<open>logical_length\<close> bytes: no short body is returned.
\<close>

theorem decompress_autoclaved_truncated:
  "(0 < logical_length coords \<and>
    read_range (container_path coords) (frame_byte_offset coords)
      (frame_byte_length coords) = Some fs \<and>
    map decomp fs = map Some ds \<and>
    length (concat ds) < intra_frame_offset coords + logical_length coords
    \<longrightarrow> snd (decompress_autoclaved read_range decomp coords) = Some CorruptArchive) \<and>
   (snd (decompress_autoclaved read_range decomp coords) = None
    \<longrightarrow> length (concat (fst (decompress_autoclaved read_range decomp coords))) =
          logical_length coords)"
proof (intro conjI impI)
  assume a: "0 < logical_length coords \<and>
    read_range (container_path coords) (frame_byte_offset coords)
      (frame_byte_length coords) = Some fs \<and>
    map decomp fs = map Some ds \<and>
    length (concat ds) < intra_frame_offset coords + logical_length coords"
  then have short: "length (concat ds) - (intra_frame_offset coords - 0) < logical_length coords - 0"
    by auto
  from a have m: "map decomp fs = map Some ds" by simp
  from extract_frames_short[OF m short] a
  show "snd (decompress_autoclaved read_range decomp coords) = Some CorruptArchive"
    by (simp add: decompress_autoclaved_def)
next
  assume n: "snd (decompress_autoclaved read_range decomp coords) = None"
  show "length (concat (fst (decompress_autoclaved read_range decomp coords))) =
        logical_length coords"
  proof (cases "read_range (container_path coords) (frame_byte_offset coords)
                  (frame_byte_length coords)")
    case None
    with n show ?thesis by (simp add: decompress_autoclaved_def)
  next
    case (Some fs')
    with n have "snd (extract_frames decomp (intra_frame_offset coords)
                       (logical_length coords) 0 0 fs') = None"
      by (simp add: decompress_autoclaved_def)
    from extract_frames_length[OF this] Some show ?thesis
      by (simp add: decompress_autoclaved_def)
  qed
qed

text \<open>
  The same three frames: a record of six bytes at offset 5 is cut short after four
  bytes, and one of four bytes at offset 5 is returned whole.
\<close>

theorem decompress_autoclaved_truncated_witness:
  "decompress_autoclaved (\<lambda>path off n. Some [''abc'', ''defg'', ''hi'']) Some
     \<lparr>container_path = ''c'', frame_byte_offset = 0, frame_byte_length = 9,
      intra_frame_offset = 5, logical_length = 6\<rparr>
   = ([''fg'', ''hi''], Some CorruptArchive) \<and>
   decompress_autoclaved (\<lambda>path off n. Some [''abc'', ''defg'', ''hi'']) Some
     \<lparr>container_path = ''c'', frame_byte_offset = 0, frame_byte_length = 9,
      intra_frame_offset = 5, logical_length = 4\<rparr>
   = ([''fg'', ''hi''], None)"
  using decompress_autoclaved_truncated
    [of "\<lparr>container_path = ''c'', frame_byte_offset = 0, frame_byte_length = 9,
          intra_frame_offset = 5, logical_length = 6\<rparr>"
        "\<lambda>path off n. Some [''abc'', ''defg'', ''hi'']"
        "[''abc'', ''defg'', ''hi'']" Some "[''abc'', ''defg'', ''hi'']"]
    decompress_autoclaved_truncated
    [of "\<lparr>container_path = ''c'', frame_byte_offset = 0, frame_byte_length = 9,
          intra_frame_offset = 5, logical_length = 4\<rparr>"
        "\<lambda>path off n. Some [''abc'', ''defg'', ''hi'']"
        "[''abc'', ''defg'', ''hi'']" Some "[''abc'', ''defg'', ''hi'']"]
  by (simp add: decompress_autoclaved_def)

section \<open>Properties of the probes and of the orchestrator\<close>

text \<open>How \<open>or_else\<close> goes on, and which source the accesses of each probe belong to.\<close>

lemma or_else_raises: "or_else (Inl e, t) b = (Inl e, t)"
  by (simp add: or_else_def)

lemma or_else_truthy: "truthy r \<Longrightarrow> or_else (Inr r, t) b = (Inr r, t)"
  by (simp add: or_else_def)

lemma or_else_falsy: "\<not> truthy r \<Longrightarrow> or_else (Inr r, t) b = (fst b, t @ snd b)"
  by (simp add: or_else_def)

lemma truthy_Some: "truthy (Some b) = (b \<noteq> [])"
  by (simp add: truthy_def)

lemma on_disk_events:
  "source_of ` set (snd (fetch_measurement_body_on_disk_by_msmt_uid env uid)) \<subseteq> {Spool}"
  by (auto simp: fetch_measurement_body_on_disk_by_msmt_uid_def Let_def
           split: sum.splits file_result.splits option.splits)

lemma hosts_loop_events: "source_of ` set (snd (hosts_loop env path hs)) \<subseteq> {Peers}"
  by (induction hs) (auto simp: Let_def split: http_result.splits option.splits sum.splits)

lemma from_hosts_events:
  "source_of ` set (snd (fetch_measurement_body_from_hosts env uid)) \<subseteq> {Peers}"
  using hosts_loop_events by (auto simp: fetch_measurement_body_from_hosts_def split: sum.splits)

lemma uid_lookup_events:
  "snd (measurement_uid_to_s3path_linenum env uid) = [QueryByUid uid]"
  by (auto simp: measurement_uid_to_s3path_linenum_def Let_def split: list.splits)

lemma report_lookup_events:
  "snd (report_id_input_to_s3path_linenum env r i) = [QueryByReport r i]"
  by (auto simp: report_id_input_to_s3path_linenum_def Let_def split: list.splits)

lemma from_s3_events:
  "source_of ` set (snd (fetch_jsonl_measurement_body_from_s3 env s l)) \<subseteq> {Archive}"
  by (auto simp: fetch_jsonl_measurement_body_from_s3_def Let_def split: option.splits)



lemma uid_lookup_pair:
  "measurement_uid_to_s3path_linenum env uid =
     (fst (measurement_uid_to_s3path_linenum env uid), [QueryByUid uid])"
  by (simp add: prod_eq_iff uid_lookup_events)

lemma report_lookup_pair:
  "report_id_input_to_s3path_linenum env r i =
     (fst (report_id_input_to_s3path_linenum env r i), [QueryByReport r i])"
  by (simp add: prod_eq_iff report_lookup_events)

lemma clickhouse_events:
  "source_of ` set (snd (fetch_jsonl_measurement_body_clickhouse env r i u)) \<subseteq> {Archive}"
proof (cases u)
  case None
  define inp where "inp = (case i of None \<Rightarrow> [] | Some x \<Rightarrow> x)"
  show ?thesis
  proof (cases "fst (report_id_input_to_s3path_linenum env r inp)")
    case (Inl e)
    then show ?thesis
      unfolding fetch_jsonl_measurement_body_clickhouse_def None inp_def[symmetric]
      by (subst report_lookup_pair) simp
  next
    case (Inr row)
    obtain s l where row: "row = (s, l)" by (cases row)
    obtain x t where s3: "fetch_jsonl_measurement_body_from_s3 env s l = (x, t)"
      by (cases "fetch_jsonl_measurement_body_from_s3 env s l")
    with from_s3_events[of env s l] have t: "source_of ` set t \<subseteq> {Archive}" by simp
    show ?thesis
      unfolding fetch_jsonl_measurement_body_clickhouse_def None inp_def[symmetric]
      using Inr row s3 t
      by (subst report_lookup_pair) (cases x; simp)
  qed
next
  case (Some uid)
  show ?thesis
  proof (cases "fst (measurement_uid_to_s3path_linenum env uid)")
    case (Inl e)
    then show ?thesis
      unfolding fetch_jsonl_measurement_body_clickhouse_def Some
      by (subst uid_lookup_pair) simp
  next
    case (Inr row)
    obtain s l where row: "row = (s, l)" by (cases row)
    obtain x t where s3: "fetch_jsonl_measurement_body_from_s3 env s l = (x, t)"
      by (cases "fetch_jsonl_measurement_body_from_s3 env s l")
    with from_s3_events[of env s l] have t: "source_of ` set t \<subseteq> {Archive}" by simp
    show ?thesis
      unfolding fetch_jsonl_measurement_body_clickhouse_def Some
      using Inr row s3 t
      by (subst uid_lookup_pair) (cases x; simp)
  qed
qed

text \<open>The end of the call, and what replacing an empty body by \<^verbatim>\<open>None\<close> changes.\<close>

lemma return_or_raise_body: "b \<noteq> [] \<Longrightarrow> return_or_raise (Inr (Some b), t) = (Inr b, t)"
  by (simp add: return_or_raise_def)

lemma return_or_raise_falsy: "\<not> truthy r \<Longrightarrow> return_or_raise (Inr r, t) = (Inl MsmtNotFound, t)"
  by (cases r) (simp_all add: return_or_raise_def truthy_def)

lemma return_or_raise_never_empty: "fst (return_or_raise p) \<noteq> Inr []"
  by (cases p rule: prod.exhaust)
     (auto simp: return_or_raise_def split: sum.splits option.splits)

lemma or_else_first:
  "fst a = Inr (Some b) \<Longrightarrow> b \<noteq> [] \<Longrightarrow> or_else a rest = (Inr (Some b), snd a)"
  by (cases a) (simp add: or_else_def truthy_def)

lemma or_else_next:
  "fst a = Inr r \<Longrightarrow> \<not> truthy r \<Longrightarrow> or_else a rest = (fst rest, snd a @ snd rest)"
  by (cases a) (simp add: or_else_def)

lemma or_else_empty_left: "or_else (empty_as_none a) b = or_else a b"
  by (cases a rule: prod.exhaust)
     (auto simp: or_else_def empty_as_none_def truthy_def split: sum.splits option.splits)

lemma or_else_empty_right: "or_else a (empty_as_none b) = empty_as_none (or_else a b)"
  by (cases a rule: prod.exhaust; cases b rule: prod.exhaust)
     (auto simp: or_else_def empty_as_none_def truthy_def split: sum.splits option.splits)

lemma return_or_raise_empty: "return_or_raise (empty_as_none p) = return_or_raise p"
  by (cases p rule: prod.exhaust)
     (auto simp: return_or_raise_def empty_as_none_def split: sum.splits option.splits)

lemma fetch_in_order_empty:
  "fetch_in_order nf fr (empty_as_none d) (empty_as_none h) (empty_as_none c) =
   fetch_in_order nf fr d h c"
  by (simp add: fetch_in_order_def or_else_empty_left or_else_empty_right return_or_raise_empty)

lemma fetch_fresh:
  assumes "new_format report_id (Some uid)" "fresh now uid"
  shows "fetch_measurement_body env now report_id input (Some uid) =
         return_or_raise
           (or_else (fetch_measurement_body_on_disk_by_msmt_uid env uid)
              (or_else (fetch_measurement_body_from_hosts env uid)
                 (fetch_jsonl_measurement_body_clickhouse env report_id input (Some uid))))"
  using assms by (simp add: fetch_measurement_body_def fetch_in_order_def)

lemma fetch_archived:
  assumes "new_format report_id (Some uid)" "\<not> fresh now uid"
  shows "fetch_measurement_body env now report_id input (Some uid) =
         return_or_raise
           (or_else (fetch_jsonl_measurement_body_clickhouse env report_id input (Some uid))
              (or_else (fetch_measurement_body_on_disk_by_msmt_uid env uid)
                 (fetch_measurement_body_from_hosts env uid)))"
  using assms by (simp add: fetch_measurement_body_def fetch_in_order_def)

lemma fetch_old_format:
  assumes "\<not> new_format report_id measurement_uid"
  shows "fetch_measurement_body env now report_id input measurement_uid =
         return_or_raise (fetch_jsonl_measurement_body_clickhouse env report_id input measurement_uid)"
  using assms by (simp add: fetch_measurement_body_def fetch_in_order_def)

text \<open>The definitions unfolded to run the model on the example inputs.\<close>

lemmas example_defs = env_example_def now_example_def report_id_example_def
  old_report_id_example_def uid_in_spool_def uid_on_peer_def uid_in_archive_def uid_delayed_def
  loads_example_def dumps_example_def

lemmas run_defs = fetch_measurement_body_def fetch_in_order_def return_or_raise_def or_else_def
  truthy_def new_format_def fresh_def strftime_YmdHM_def minus_one_hour_def digits2_def
  digits4_def digit_def fetch_measurement_body_on_disk_by_msmt_uid_def
  fetch_measurement_body_from_hosts_def fetch_jsonl_measurement_body_clickhouse_def
  measurement_uid_to_s3path_linenum_def report_id_input_to_s3path_linenum_def
  fetch_jsonl_measurement_body_from_s3_def spool_path_def startswith_def int_parses_def
  strip_def isspace_def isdigit_def unwrap_post_def spooldir_def peer_url_def Let_def

text \<open>
  C3. Fresh order. For a request that is classified fresh (report id in the current
  format, uid given, uid above the rendering of the time one hour ago) the calls are made
  in the order spool, peer hosts, archive. When the spool probe returns a body, that body
  is the result and only the spool was accessed; when the spool probe returns nothing and
  the peer-host probe returns a body, that body is the result and the archive was not
  accessed; when both return nothing and the archive probe returns a body, that body is
  the result. The accesses are those of the probes that ran, in that order, and each
  probe accesses its own source only.
\<close>

theorem fresh_order:
  assumes "new_format report_id (Some uid)" and "fresh now uid"
  shows
    "let on_disk = fetch_measurement_body_on_disk_by_msmt_uid env uid;
         from_hosts = fetch_measurement_body_from_hosts env uid;
         clickhouse = fetch_jsonl_measurement_body_clickhouse env report_id input (Some uid);
         result = fetch_measurement_body env now report_id input (Some uid)
     in (\<forall>b. fst on_disk = Inr (Some b) \<and> b \<noteq> [] \<longrightarrow>
            result = (Inr b, snd on_disk) \<and> source_of ` set (snd result) \<subseteq> {Spool}) \<and>
        (\<forall>r b. fst on_disk = Inr r \<and> \<not> truthy r \<and> fst from_hosts = Inr (Some b) \<and> b \<noteq> [] \<longrightarrow>
            result = (Inr b, snd on_disk @ snd from_hosts) \<and>
            source_of ` set (snd result) \<subseteq> {Spool, Peers}) \<and>
        (\<forall>r r' b. fst on_disk = Inr r \<and> \<not> truthy r \<and> fst from_hosts = Inr r' \<and> \<not> truthy r' \<and>
            fst clickhouse = Inr (Some b) \<and> b \<noteq> [] \<longrightarrow>
            result = (Inr b, snd on_disk @ snd from_hosts @ snd clickhouse)) \<and>
        source_of ` set (snd on_disk) \<subseteq> {Spool} \<and>
        source_of ` set (snd from_hosts) \<subseteq> {Peers} \<and>
        source_of ` set (snd clickhouse) \<subseteq> {Archive}"
proof -
  define d where "d = fetch_measurement_body_on_disk_by_msmt_uid env uid"
  define h where "h = fetch_measurement_body_from_hosts env uid"
  define c where "c = fetch_jsonl_measurement_body_clickhouse env report_id input (Some uid)"
  define result where "result = fetch_measurement_body env now report_id input (Some uid)"
  have res: "result = return_or_raise (or_else d (or_else h c))"
    unfolding result_def d_def h_def c_def by (rule fetch_fresh[OF assms])
  have ed: "source_of ` set (snd d) \<subseteq> {Spool}"
    unfolding d_def by (rule on_disk_events)
  have eh: "source_of ` set (snd h) \<subseteq> {Peers}"
    unfolding h_def by (rule from_hosts_events)
  have ec: "source_of ` set (snd c) \<subseteq> {Archive}"
    unfolding c_def by (rule clickhouse_events)
  have first: "result = (Inr b, snd d) \<and> source_of ` set (snd result) \<subseteq> {Spool}"
    if "fst d = Inr (Some b) \<and> b \<noteq> []" for b
    using that ed by (simp add: res or_else_first return_or_raise_body)
  have second: "result = (Inr b, snd d @ snd h) \<and> source_of ` set (snd result) \<subseteq> {Spool, Peers}"
    if "fst d = Inr r \<and> \<not> truthy r \<and> fst h = Inr (Some b) \<and> b \<noteq> []" for r b
  proof -
    from that have "or_else d (or_else h c) = (Inr (Some b), snd d @ snd h)"
      by (simp add: or_else_next[of d r] or_else_first[of h b])
    with that have "result = (Inr b, snd d @ snd h)"
      by (simp add: res return_or_raise_body)
    with ed eh show ?thesis by auto
  qed
  have third: "result = (Inr b, snd d @ snd h @ snd c)"
    if "fst d = Inr r \<and> \<not> truthy r \<and> fst h = Inr r' \<and> \<not> truthy r' \<and>
        fst c = Inr (Some b) \<and> b \<noteq> []" for r r' b
  proof -
    from that have "or_else d (or_else h c) = (Inr (Some b), snd d @ snd h @ snd c)"
      by (simp add: or_else_next[of d r] or_else_next[of h r'])
    with that show ?thesis
      by (simp add: res return_or_raise_body)
  qed
  from first second third ed eh ec show ?thesis
    unfolding Let_def d_def h_def c_def result_def by blast
qed

text \<open>
  The measurement held by the second peer only: the spool is asked, then the first
  peer, which is unreachable, then the second, and the archive is left alone.
\<close>

theorem fresh_order_witness:
  "fetch_measurement_body env_example now_example report_id_example None (Some uid_on_peer) =
     (Inr ''{test_name: web_connectivity}'',
      [SpoolOpen ''/var/lib/ooniapi/measurements/incoming/2026110416_IT_webconnectivity/20261104164000_IT_webconnectivity_bbbb.post'',
       HttpGet ''https://ams-ps.ooni.nu/measurement_spool/2026110416_IT_webconnectivity/20261104164000_IT_webconnectivity_bbbb.post'',
       HttpGet ''https://backend-hel.ooni.org/measurement_spool/2026110416_IT_webconnectivity/20261104164000_IT_webconnectivity_bbbb.post''])"
proof -
  have nf: "new_format report_id_example (Some uid_on_peer)"
    by (simp add: new_format_def truthy_def example_defs)
  have fr: "fresh now_example uid_on_peer"
    by (simp add: example_defs fresh_def strftime_YmdHM_def minus_one_hour_def digits2_def
          digits4_def digit_def)
  have d: "fetch_measurement_body_on_disk_by_msmt_uid env_example uid_on_peer =
     (Inr None, [SpoolOpen ''/var/lib/ooniapi/measurements/incoming/2026110416_IT_webconnectivity/20261104164000_IT_webconnectivity_bbbb.post''])"
    by (simp add: example_defs run_defs)
  have h: "fetch_measurement_body_from_hosts env_example uid_on_peer =
     (Inr (Some ''{test_name: web_connectivity}''),
      [HttpGet ''https://ams-ps.ooni.nu/measurement_spool/2026110416_IT_webconnectivity/20261104164000_IT_webconnectivity_bbbb.post'',
       HttpGet ''https://backend-hel.ooni.org/measurement_spool/2026110416_IT_webconnectivity/20261104164000_IT_webconnectivity_bbbb.post''])"
    by (simp add: example_defs run_defs)
  from fresh_order[OF nf fr, of env_example None] show ?thesis
    unfolding Let_def d h by (simp add: truthy_def)
qed

text \<open>
  C4, as stated, fails. A request whose report id is in an older format is not classified
  fresh, the archive has no row for it, and the local spool holds the measurement: the
  orchestrator asks the archive only and raises \<open>MsmtNotFound\<close>, it does not fall back
  to the spool.
\<close>

theorem old_format_no_fallback_counterexample:
  "\<not> (new_format old_report_id_example (Some uid_in_spool) \<and> fresh now_example uid_in_spool) \<and>
   fetch_jsonl_measurement_body_clickhouse env_example old_report_id_example None (Some uid_in_spool) =
     (Inr None, [QueryByUid ''20261104164000_IT_webconnectivity_aaaa'']) \<and>
   fetch_measurement_body_on_disk_by_msmt_uid env_example uid_in_spool =
     (Inr (Some ''{test_name: web_connectivity}''),
      [SpoolOpen ''/var/lib/ooniapi/measurements/incoming/2026110416_IT_webconnectivity/20261104164000_IT_webconnectivity_aaaa.post'']) \<and>
   fetch_measurement_body env_example now_example old_report_id_example None (Some uid_in_spool) =
     (Inl MsmtNotFound, [QueryByUid ''20261104164000_IT_webconnectivity_aaaa''])"
  by (simp add: example_defs run_defs)

text \<open>
  C4, amended. For a request in the current format (report id with five underscores, uid
  given) that is not fresh, the calls are made in the order archive, spool, peer hosts,
  a body ending the chain: a body from the archive is the result and only the archive was
  accessed; with nothing from the archive a body from the spool is the result and no peer
  was asked; with nothing from either a body from the peers is the result. For every
  other request (report id in another format, or no uid, as in the report id and input
  form) only the archive is asked: its body is the result, and \<open>MsmtNotFound\<close> is raised
  when it returns none.
\<close>

theorem archived_order:
  "let on_disk = fetch_measurement_body_on_disk_by_msmt_uid env uid;
       from_hosts = fetch_measurement_body_from_hosts env uid;
       clickhouse = fetch_jsonl_measurement_body_clickhouse env report_id input (Some uid);
       result = fetch_measurement_body env now report_id input (Some uid);
       archive_only = fetch_jsonl_measurement_body_clickhouse env report_id input measurement_uid;
       result' = fetch_measurement_body env now report_id input measurement_uid
   in (new_format report_id (Some uid) \<and> \<not> fresh now uid \<longrightarrow>
        (\<forall>b. fst clickhouse = Inr (Some b) \<and> b \<noteq> [] \<longrightarrow>
            result = (Inr b, snd clickhouse) \<and> source_of ` set (snd result) \<subseteq> {Archive}) \<and>
        (\<forall>r b. fst clickhouse = Inr r \<and> \<not> truthy r \<and> fst on_disk = Inr (Some b) \<and> b \<noteq> [] \<longrightarrow>
            result = (Inr b, snd clickhouse @ snd on_disk) \<and>
            source_of ` set (snd result) \<subseteq> {Archive, Spool}) \<and>
        (\<forall>r r' b. fst clickhouse = Inr r \<and> \<not> truthy r \<and> fst on_disk = Inr r' \<and> \<not> truthy r' \<and>
            fst from_hosts = Inr (Some b) \<and> b \<noteq> [] \<longrightarrow>
            result = (Inr b, snd clickhouse @ snd on_disk @ snd from_hosts))) \<and>
      (\<not> new_format report_id measurement_uid \<longrightarrow>
        result' = return_or_raise archive_only \<and>
        source_of ` set (snd result') \<subseteq> {Archive} \<and>
        (\<forall>b. fst archive_only = Inr (Some b) \<and> b \<noteq> [] \<longrightarrow> result' = (Inr b, snd archive_only)) \<and>
        (\<forall>r. fst archive_only = Inr r \<and> \<not> truthy r \<longrightarrow>
            result' = (Inl MsmtNotFound, snd archive_only)))"
proof -
  define d where "d = fetch_measurement_body_on_disk_by_msmt_uid env uid"
  define h where "h = fetch_measurement_body_from_hosts env uid"
  define c where "c = fetch_jsonl_measurement_body_clickhouse env report_id input (Some uid)"
  define result where "result = fetch_measurement_body env now report_id input (Some uid)"
  define a where "a = fetch_jsonl_measurement_body_clickhouse env report_id input measurement_uid"
  define result' where "result' = fetch_measurement_body env now report_id input measurement_uid"
  have ed: "source_of ` set (snd d) \<subseteq> {Spool}"
    unfolding d_def by (rule on_disk_events)
  have ec: "source_of ` set (snd c) \<subseteq> {Archive}"
    unfolding c_def by (rule clickhouse_events)
  have ea: "source_of ` set (snd a) \<subseteq> {Archive}"
    unfolding a_def by (rule clickhouse_events)
  have archived: "(\<forall>b. fst c = Inr (Some b) \<and> b \<noteq> [] \<longrightarrow>
            result = (Inr b, snd c) \<and> source_of ` set (snd result) \<subseteq> {Archive}) \<and>
        (\<forall>r b. fst c = Inr r \<and> \<not> truthy r \<and> fst d = Inr (Some b) \<and> b \<noteq> [] \<longrightarrow>
            result = (Inr b, snd c @ snd d) \<and> source_of ` set (snd result) \<subseteq> {Archive, Spool}) \<and>
        (\<forall>r r' b. fst c = Inr r \<and> \<not> truthy r \<and> fst d = Inr r' \<and> \<not> truthy r' \<and>
            fst h = Inr (Some b) \<and> b \<noteq> [] \<longrightarrow> result = (Inr b, snd c @ snd d @ snd h))"
    if nf: "new_format report_id (Some uid) \<and> \<not> fresh now uid"
  proof -
    have res: "result = return_or_raise (or_else c (or_else d h))"
      unfolding result_def d_def h_def c_def using nf by (simp add: fetch_archived)
    have first: "result = (Inr b, snd c) \<and> source_of ` set (snd result) \<subseteq> {Archive}"
      if "fst c = Inr (Some b) \<and> b \<noteq> []" for b
      using that ec by (simp add: res or_else_first return_or_raise_body)
    have second: "result = (Inr b, snd c @ snd d) \<and> source_of ` set (snd result) \<subseteq> {Archive, Spool}"
      if "fst c = Inr r \<and> \<not> truthy r \<and> fst d = Inr (Some b) \<and> b \<noteq> []" for r b
    proof -
      from that have "or_else c (or_else d h) = (Inr (Some b), snd c @ snd d)"
        by (simp add: or_else_next[of c r] or_else_first[of d b])
      with that have "result = (Inr b, snd c @ snd d)"
        by (simp add: res return_or_raise_body)
      with ed ec show ?thesis by auto
    qed
    have third: "result = (Inr b, snd c @ snd d @ snd h)"
      if "fst c = Inr r \<and> \<not> truthy r \<and> fst d = Inr r' \<and> \<not> truthy r' \<and>
          fst h = Inr (Some b) \<and> b \<noteq> []" for r r' b
    proof -
      from that have "or_else c (or_else d h) = (Inr (Some b), snd c @ snd d @ snd h)"
        by (simp add: or_else_next[of c r] or_else_next[of d r'] or_else_first[of h b])
      with that show ?thesis
        by (simp add: res return_or_raise_body)
    qed
    from first second third show ?thesis by blast
  qed
  have old: "result' = return_or_raise a \<and> source_of ` set (snd result') \<subseteq> {Archive} \<and>
        (\<forall>b. fst a = Inr (Some b) \<and> b \<noteq> [] \<longrightarrow> result' = (Inr b, snd a)) \<and>
        (\<forall>r. fst a = Inr r \<and> \<not> truthy r \<longrightarrow> result' = (Inl MsmtNotFound, snd a))"
    if nnf: "\<not> new_format report_id measurement_uid"
  proof -
    have res: "result' = return_or_raise a"
      unfolding result'_def a_def using nnf by (rule fetch_old_format)
    obtain x t where a: "a = (x, t)" by (cases a)
    have tr: "snd (return_or_raise a) = snd a"
      unfolding a by (auto simp: return_or_raise_def split: sum.splits option.splits)
    have b: "result' = (Inr b, snd a)" if "fst a = Inr (Some b) \<and> b \<noteq> []" for b
      using that unfolding res a by (simp add: return_or_raise_body)
    have n: "result' = (Inl MsmtNotFound, snd a)" if "fst a = Inr r \<and> \<not> truthy r" for r
      using that unfolding res a by (simp add: return_or_raise_falsy)
    from tr ea have "source_of ` set (snd result') \<subseteq> {Archive}" by (simp add: res)
    with res b n show ?thesis by blast
  qed
  from archived old show ?thesis
    unfolding Let_def d_def h_def c_def a_def result_def result'_def by blast
qed

text \<open>
  The day-old measurement still in the spool is found there after the archive; a request
  by report id and input asks the archive alone.
\<close>

theorem archived_order_witness:
  "fetch_measurement_body env_example now_example report_id_example
     (Some ''https://example.org/'') (Some uid_delayed) =
     (Inr ''{test_name: web_connectivity}'',
      [QueryByUid ''20261103120000_IT_webconnectivity_eeee'',
       SpoolOpen ''/var/lib/ooniapi/measurements/incoming/2026110312_IT_webconnectivity/20261103120000_IT_webconnectivity_eeee.post'']) \<and>
   fetch_measurement_body env_example now_example report_id_example (Some ''https://example.org/'') None =
     (Inr ''{test_name: web_connectivity}'',
      [QueryByReport ''20261104T163000Z_webconnectivity_IT_30722_n1_Ojb3Wdk2'' ''https://example.org/'',
       S3Get ''https://ooni-data-eu-fra.s3.amazonaws.com/raw/20261104/16/IT/webconnectivity/2026110416_IT_webconnectivity.n1.0.jsonl.gz''])"
proof -
  have nf: "new_format report_id_example (Some uid_delayed) \<and> \<not> fresh now_example uid_delayed"
    by (simp add: new_format_def truthy_def example_defs fresh_def strftime_YmdHM_def
          minus_one_hour_def digits2_def digits4_def digit_def)
  have nnf: "\<not> new_format report_id_example None"
    by (simp add: new_format_def truthy_def)
  have c: "fetch_jsonl_measurement_body_clickhouse env_example report_id_example
             (Some ''https://example.org/'') (Some uid_delayed) =
           (Inr None, [QueryByUid ''20261103120000_IT_webconnectivity_eeee''])"
    by (simp add: example_defs run_defs)
  have d: "fetch_measurement_body_on_disk_by_msmt_uid env_example uid_delayed =
     (Inr (Some ''{test_name: web_connectivity}''),
      [SpoolOpen ''/var/lib/ooniapi/measurements/incoming/2026110312_IT_webconnectivity/20261103120000_IT_webconnectivity_eeee.post''])"
    by (simp add: example_defs run_defs)
  have a: "fetch_jsonl_measurement_body_clickhouse env_example report_id_example
             (Some ''https://example.org/'') None =
     (Inr (Some ''{test_name: web_connectivity}''),
      [QueryByReport ''20261104T163000Z_webconnectivity_IT_30722_n1_Ojb3Wdk2'' ''https://example.org/'',
       S3Get ''https://ooni-data-eu-fra.s3.amazonaws.com/raw/20261104/16/IT/webconnectivity/2026110416_IT_webconnectivity.n1.0.jsonl.gz''])"
    by (simp add: example_defs run_defs)
  from archived_order[of env_example uid_delayed report_id_example "Some ''https://example.org/''"
         now_example None] nf nnf
  show ?thesis
    unfolding Let_def c d a by (simp add: truthy_def return_or_raise_def)
qed

text \<open>
  C5. The errors of a malformed uid are not absorbed when they come from the spool probe.
  With a report id in the current format, a uid that does not start with \<^verbatim>\<open>20\<close> and is
  not in the archive makes the orchestrator raise \<open>AssertionError\<close> after the archive
  lookup, and a recent uid with three fields instead of four makes it raise
  \<open>ValueError\<close> before any source is accessed; neither is \<open>MsmtNotFound\<close>. The
  peer-host probe returns \<^verbatim>\<open>None\<close> on both uids.
\<close>

theorem malformed_uid_escapes:
  "fetch_measurement_body env_example now_example report_id_example None
     (Some ''0120210124abcdef'') =
     (Inl AssertionError, [QueryByUid ''0120210124abcdef'']) \<and>
   fetch_measurement_body env_example now_example report_id_example None
     (Some ''20261104164000_IT_webconnectivity'') = (Inl ValueError, []) \<and>
   MalformedIdentifier AssertionError \<and> MalformedIdentifier ValueError \<and>
   fetch_measurement_body_from_hosts env_example ''0120210124abcdef'' = (Inr None, []) \<and>
   fetch_measurement_body_from_hosts env_example ''20261104164000_IT_webconnectivity'' =
     (Inr None, [])"
  by (simp add: example_defs run_defs MalformedIdentifier_def)

text \<open>
  C10. An empty body counts as no body. Replacing every empty body returned by a probe
  with \<^verbatim>\<open>None\<close> changes neither the result nor the accesses of the orchestrator; the
  orchestrator never returns an empty body; and when every probe returns \<^verbatim>\<open>None\<close> or
  an empty body, the result is \<open>MsmtNotFound\<close> after all the probes of the branch
  taken have run.
\<close>

theorem empty_body_is_not_present:
  "fetch_in_order nf fr (empty_as_none d) (empty_as_none h) (empty_as_none c) =
     fetch_in_order nf fr d h c \<and>
   fst (fetch_in_order nf fr d h c) \<noteq> Inr [] \<and>
   fst (fetch_measurement_body env now report_id input measurement_uid) \<noteq> Inr [] \<and>
   (fst d = Inr rd \<and> \<not> truthy rd \<and> fst h = Inr rh \<and> \<not> truthy rh \<and>
    fst c = Inr rc \<and> \<not> truthy rc \<longrightarrow>
      fetch_in_order nf fr d h c =
        (Inl MsmtNotFound,
         if nf then (if fr then snd d @ snd h @ snd c else snd c @ snd d @ snd h) else snd c))"
proof (intro conjI impI)
  show "fetch_in_order nf fr (empty_as_none d) (empty_as_none h) (empty_as_none c) =
        fetch_in_order nf fr d h c"
    by (rule fetch_in_order_empty)
  show "fst (fetch_in_order nf fr d h c) \<noteq> Inr []"
    unfolding fetch_in_order_def by (rule return_or_raise_never_empty)
  show "fst (fetch_measurement_body env now report_id input measurement_uid) \<noteq> Inr []"
    unfolding fetch_measurement_body_def fetch_in_order_def Let_def
    by (rule return_or_raise_never_empty)
next
  assume a: "fst d = Inr rd \<and> \<not> truthy rd \<and> fst h = Inr rh \<and> \<not> truthy rh \<and>
             fst c = Inr rc \<and> \<not> truthy rc"
  have dh: "or_else d (or_else h c) = (Inr rc, snd d @ snd h @ snd c)"
    using a by (simp add: or_else_next[of d rd] or_else_next[of h rh])
  have cd: "or_else c (or_else d h) = (Inr rh, snd c @ snd d @ snd h)"
    using a by (simp add: or_else_next[of c rc] or_else_next[of d rd])
  have c: "c = (Inr rc, snd c)"
    using a by (simp add: prod_eq_iff)
  show "fetch_in_order nf fr d h c =
        (Inl MsmtNotFound,
         if nf then (if fr then snd d @ snd h @ snd c else snd c @ snd d @ snd h) else snd c)"
  proof (cases nf)
    case True
    then show ?thesis
      using a by (cases fr) (simp_all add: fetch_in_order_def dh cd return_or_raise_falsy)
  next
    case False
    have "return_or_raise c = (Inl MsmtNotFound, snd c)"
      using a by (subst c) (simp add: return_or_raise_falsy)
    with False show ?thesis by (simp add: fetch_in_order_def)
  qed
qed

text \<open>An empty body from the spool and an empty line from the archive, nothing on the peers.\<close>

theorem empty_body_is_not_present_witness:
  "fetch_in_order True True (Inr (Some []), [SpoolOpen ''p'']) (Inr None, [])
     (Inr (Some []), [S3Get ''u'']) = (Inl MsmtNotFound, [SpoolOpen ''p'', S3Get ''u''])"
  using empty_body_is_not_present
    [of True True "(Inr (Some []), [SpoolOpen ''p''])" "(Inr None, [])"
        "(Inr (Some []), [S3Get ''u''])" _ _ _ _ _ "Some []" None "Some []"]
  by (simp add: truthy_def)

text \<open>A uid with a wrong number of fields or an hour that \<^verbatim>\<open>int\<close> refuses has no spool path.\<close>

lemma spool_path_malformed:
  assumes "length (split_on CHR ''_'' msmt_uid) \<noteq> 4 \<or>
           \<not> int_parses (take 10 (hd (split_on CHR ''_'' msmt_uid)))"
  shows "spool_path msmt_uid = Inl AssertionError \<or> spool_path msmt_uid = Inl ValueError"
proof (cases "startswith msmt_uid ''20''")
  case False
  then show ?thesis by (simp add: spool_path_def)
next
  case True
  have "spool_path msmt_uid = Inl ValueError"
    using assms True
    by (auto simp: spool_path_def Let_def split: list.splits)
  then show ?thesis by simp
qed

text \<open>
  What \<^verbatim>\<open>int\<close> amounts to on the hour of a uid that passed the \<^verbatim>\<open>assert\<close>: the first
  field starts with \<^verbatim>\<open>20\<close> and holds no underscore, so neither a sign, nor white space
  in front, nor an underscore between digits can occur, and the hour is accepted exactly
  when it is decimal digits followed by white space or nothing.
\<close>

lemma split_on_not_Nil: "split_on c s \<noteq> []"
  by (induction s) (auto split: list.splits)

lemma split_on_no_separator: "f \<in> set (split_on c s) \<Longrightarrow> c \<notin> set f"
proof (induction s arbitrary: f)
  case Nil
  then show ?case by simp
next
  case (Cons x xs)
  show ?case
  proof (cases "x = c")
    case True
    with Cons show ?thesis by auto
  next
    case False
    obtain w ws where w: "split_on c xs = w # ws"
      using split_on_not_Nil[of c xs] by (cases "split_on c xs") auto
    with Cons.prems False have "f = x # w \<or> f \<in> set ws" by simp
    with Cons.IH[of w] Cons.IH[of f] w False show ?thesis by auto
  qed
qed

lemma split_on_Cons_other:
  "x \<noteq> c \<Longrightarrow> split_on c (x # xs) = (x # hd (split_on c xs)) # tl (split_on c xs)"
  using split_on_not_Nil[of c xs] by (cases "split_on c xs") auto

lemma digits_us_plain: "CHR ''_'' \<notin> set s \<Longrightarrow> digits_us s = all_digits s"
  by (induction s rule: digits_us.induct) (auto simp: all_digits_def)

lemma rstrip_Cons: "\<not> isspace a \<Longrightarrow> rstrip (a # s) = a # rstrip s"
  by (simp add: rstrip_def dropWhile_append)

lemma set_rstrip: "set (rstrip s) \<subseteq> set s"
  unfolding rstrip_def using set_dropWhileD[of _ isspace "rev s"] by auto

lemma int_parses_hour:
  assumes "\<not> isspace a" "a \<noteq> CHR ''+''" "a \<noteq> CHR ''-''" "CHR ''_'' \<notin> set (a # s)"
  shows "int_parses (a # s) = all_digits (rstrip (a # s))"
proof -
  have st: "strip (a # s) = a # rstrip s"
    using assms(1) rstrip_Cons[OF assms(1), of s] by (simp add: strip_def rstrip_def)
  have "CHR ''_'' \<notin> set (a # rstrip s)"
    using assms(4) set_rstrip[of s] by auto
  from digits_us_plain[OF this] show ?thesis
    using assms by (simp add: int_parses_def st rstrip_Cons)
qed

lemma hour_of_uid:
  assumes "startswith msmt_uid ''20''"
  shows "\<exists>w. take 10 (hd (split_on CHR ''_'' msmt_uid)) = CHR ''2'' # w \<and>
             CHR ''_'' \<notin> set (CHR ''2'' # w)"
proof -
  from assms obtain u where u: "msmt_uid = CHR ''2'' # CHR ''0'' # u"
    by (cases msmt_uid; cases "tl msmt_uid") (auto simp: startswith_def)
  have s0: "split_on CHR ''_'' (CHR ''0'' # u) =
            (CHR ''0'' # hd (split_on CHR ''_'' u)) # tl (split_on CHR ''_'' u)"
    by (rule split_on_Cons_other) simp
  have s2: "split_on CHR ''_'' (CHR ''2'' # CHR ''0'' # u) =
            (CHR ''2'' # hd (split_on CHR ''_'' (CHR ''0'' # u))) #
            tl (split_on CHR ''_'' (CHR ''0'' # u))"
    by (rule split_on_Cons_other) simp
  have hd: "hd (split_on CHR ''_'' msmt_uid) = CHR ''2'' # CHR ''0'' # hd (split_on CHR ''_'' u)"
    unfolding u s2 list.sel s0 list.sel ..
  have "hd (split_on CHR ''_'' msmt_uid) \<in> set (split_on CHR ''_'' msmt_uid)"
    using split_on_not_Nil by simp
  from split_on_no_separator[OF this]
  have "CHR ''_'' \<notin> set (take 10 (hd (split_on CHR ''_'' msmt_uid)))"
    using set_take_subset[of 10 "hd (split_on CHR ''_'' msmt_uid)"] by auto
  then show ?thesis unfolding hd by simp
qed

lemma int_parses_hour_of_uid:
  assumes "startswith msmt_uid ''20''"
  shows "int_parses (take 10 (hd (split_on CHR ''_'' msmt_uid))) =
         all_digits (rstrip (take 10 (hd (split_on CHR ''_'' msmt_uid))))"
proof -
  from hour_of_uid[OF assms] obtain w where
    w: "take 10 (hd (split_on CHR ''_'' msmt_uid)) = CHR ''2'' # w"
       "CHR ''_'' \<notin> set (CHR ''2'' # w)"
    by blast
  have "\<not> isspace CHR ''2''" by (simp add: isspace_def)
  from int_parses_hour[OF this _ _ w(2)] show ?thesis
    unfolding w(1) by simp
qed

text \<open>
  C6, as stated, fails. The hour prefix \<^verbatim>\<open>202611041\<close> followed by a space is not
  numeric, and \<^verbatim>\<open>int\<close> accepts it: the path is built with the space in it, the spool
  probe opens the file and the peer-host probe asks both peers.
\<close>

theorem hour_with_space_counterexample:
  "\<not> all_digits (take 10 (hd (split_on CHR ''_'' ''202611041 4000_IT_webconnectivity_aaaa''))) \<and>
   spool_path ''202611041 4000_IT_webconnectivity_aaaa'' =
     Inr ''202611041 _IT_webconnectivity/202611041 4000_IT_webconnectivity_aaaa.post'' \<and>
   fetch_measurement_body_on_disk_by_msmt_uid env_example ''202611041 4000_IT_webconnectivity_aaaa'' =
     (Inr None,
      [SpoolOpen ''/var/lib/ooniapi/measurements/incoming/202611041 _IT_webconnectivity/202611041 4000_IT_webconnectivity_aaaa.post'']) \<and>
   fetch_measurement_body_from_hosts env_example ''202611041 4000_IT_webconnectivity_aaaa'' =
     (Inr None,
      [HttpGet ''https://ams-ps.ooni.nu/measurement_spool/202611041 _IT_webconnectivity/202611041 4000_IT_webconnectivity_aaaa.post'',
       HttpGet ''https://backend-hel.ooni.org/measurement_spool/202611041 _IT_webconnectivity/202611041 4000_IT_webconnectivity_aaaa.post''])"
  by (simp add: all_digits_def example_defs run_defs)

text \<open>
  C6, amended. A uid that does not split at underscores into exactly four fields, or
  whose hour prefix (the first ten characters of the first field) is not, once the white
  space at its end is removed, a string of decimal digits, is rejected by both probes
  before a path is built (\<open>spool_path\<close> gives the error, not a path) and before
  anything is accessed: the spool probe raises the error with no access made, the
  peer-host probe catches it and returns \<^verbatim>\<open>None\<close> with no request sent. The condition is
  exact: a uid that starts with \<^verbatim>\<open>20\<close>, has four fields and such an hour prefix gets
  a path.
\<close>

theorem malformed_uid_rejected:
  "(length (split_on CHR ''_'' msmt_uid) \<noteq> 4 \<or>
    \<not> all_digits (rstrip (take 10 (hd (split_on CHR ''_'' msmt_uid))))
    \<longrightarrow> (\<exists>e. MalformedIdentifier e \<and> spool_path msmt_uid = Inl e \<and>
              fetch_measurement_body_on_disk_by_msmt_uid env msmt_uid = (Inl e, [])) \<and>
        fetch_measurement_body_from_hosts env msmt_uid = (Inr None, [])) \<and>
   (startswith msmt_uid ''20'' \<and> length (split_on CHR ''_'' msmt_uid) = 4 \<and>
    all_digits (rstrip (take 10 (hd (split_on CHR ''_'' msmt_uid))))
    \<longrightarrow> (\<exists>path. spool_path msmt_uid = Inr path))"
proof (rule conjI; rule impI)
  assume bad: "length (split_on CHR ''_'' msmt_uid) \<noteq> 4 \<or>
               \<not> all_digits (rstrip (take 10 (hd (split_on CHR ''_'' msmt_uid))))"
  have "spool_path msmt_uid = Inl AssertionError \<or> spool_path msmt_uid = Inl ValueError"
  proof (cases "startswith msmt_uid ''20''")
    case False
    then show ?thesis by (simp add: spool_path_def)
  next
    case True
    from bad int_parses_hour_of_uid[OF True]
    have "length (split_on CHR ''_'' msmt_uid) \<noteq> 4 \<or>
          \<not> int_parses (take 10 (hd (split_on CHR ''_'' msmt_uid)))"
      by simp
    then show ?thesis by (rule spool_path_malformed)
  qed
  then obtain e where e: "MalformedIdentifier e" "spool_path msmt_uid = Inl e"
    by (auto simp: MalformedIdentifier_def)
  from e(2) have "fetch_measurement_body_on_disk_by_msmt_uid env msmt_uid = (Inl e, [])"
    and "fetch_measurement_body_from_hosts env msmt_uid = (Inr None, [])"
    by (simp_all add: fetch_measurement_body_on_disk_by_msmt_uid_def
          fetch_measurement_body_from_hosts_def)
  with e show "(\<exists>e. MalformedIdentifier e \<and> spool_path msmt_uid = Inl e \<and>
              fetch_measurement_body_on_disk_by_msmt_uid env msmt_uid = (Inl e, [])) \<and>
        fetch_measurement_body_from_hosts env msmt_uid = (Inr None, [])"
    by blast
next
  assume good: "startswith msmt_uid ''20'' \<and> length (split_on CHR ''_'' msmt_uid) = 4 \<and>
                all_digits (rstrip (take 10 (hd (split_on CHR ''_'' msmt_uid))))"
  then obtain tstamp cc testname hash where
    f: "split_on CHR ''_'' msmt_uid = [tstamp, cc, testname, hash]"
    by (auto simp: eval_nat_numeral length_Suc_conv)
  from good int_parses_hour_of_uid[of msmt_uid]
  have "int_parses (take 10 tstamp)" by (simp add: f)
  with good f show "\<exists>path. spool_path msmt_uid = Inr path"
    by (simp add: spool_path_def)
qed

text \<open>
  A uid of three fields and one whose hour prefix is \<^verbatim>\<open>2026-11-04\<close> are rejected; the
  uid of the measurement in the spool gets its path.
\<close>

theorem malformed_uid_rejected_witness:
  "fetch_measurement_body_on_disk_by_msmt_uid env_example ''20261104164000_IT_webconnectivity'' =
     (Inl ValueError, []) \<and>
   fetch_measurement_body_from_hosts env_example ''20261104164000_IT_webconnectivity'' =
     (Inr None, []) \<and>
   fetch_measurement_body_on_disk_by_msmt_uid env_example ''2026-11-04T16_IT_webconnectivity_aaaa'' =
     (Inl ValueError, []) \<and>
   fetch_measurement_body_from_hosts env_example ''2026-11-04T16_IT_webconnectivity_aaaa'' =
     (Inr None, []) \<and>
   spool_path uid_in_spool =
     Inr ''2026110416_IT_webconnectivity/20261104164000_IT_webconnectivity_aaaa.post''"
proof -
  have fields: "length (split_on CHR ''_'' ''20261104164000_IT_webconnectivity'') \<noteq> 4 \<or>
     \<not> all_digits (rstrip (take 10 (hd (split_on CHR ''_'' ''20261104164000_IT_webconnectivity''))))"
    by simp
  have hour: "length (split_on CHR ''_'' ''2026-11-04T16_IT_webconnectivity_aaaa'') \<noteq> 4 \<or>
     \<not> all_digits (rstrip (take 10 (hd (split_on CHR ''_'' ''2026-11-04T16_IT_webconnectivity_aaaa''))))"
    by (simp add: all_digits_def rstrip_def isspace_def isdigit_def)
  have good: "startswith uid_in_spool ''20'' \<and> length (split_on CHR ''_'' uid_in_spool) = 4 \<and>
     all_digits (rstrip (take 10 (hd (split_on CHR ''_'' uid_in_spool))))"
    by (simp add: uid_in_spool_def startswith_def all_digits_def rstrip_def isspace_def isdigit_def)
  have e1: "spool_path ''20261104164000_IT_webconnectivity'' = Inl ValueError"
    by (simp add: spool_path_def startswith_def)
  have e2: "spool_path ''2026-11-04T16_IT_webconnectivity_aaaa'' = Inl ValueError"
    by (simp add: spool_path_def startswith_def int_parses_def strip_def isspace_def isdigit_def)
  have e3: "spool_path uid_in_spool =
     Inr ''2026110416_IT_webconnectivity/20261104164000_IT_webconnectivity_aaaa.post''"
    using malformed_uid_rejected[of uid_in_spool env_example] good
    by (simp add: uid_in_spool_def spool_path_def startswith_def int_parses_def strip_def
          isspace_def isdigit_def)
  from malformed_uid_rejected[of "''20261104164000_IT_webconnectivity''" env_example] fields
       malformed_uid_rejected[of "''2026-11-04T16_IT_webconnectivity_aaaa''" env_example] hour
       e3
  show ?thesis
    unfolding e1 e2 by simp
qed

text \<open>
  One round of the loop over the peers in terms of \<open>peer_answer\<close>, and the loop as
  a search for the first peer with an answer.
\<close>

lemma hosts_loop_step:
  "hosts_loop env path (hostname # hostnames) =
     (if peer_answer env (peer_url env path hostname) = None
      then (fst (hosts_loop env path hostnames),
            HttpGet (peer_url env path hostname) # snd (hosts_loop env path hostnames))
      else (Inr (peer_answer env (peer_url env path hostname)),
            [HttpGet (peer_url env path hostname)]))"
proof (cases "http_request env (peer_url env path hostname)")
  case RequestFails
  then show ?thesis
    by (simp add: peer_answer_def Let_def)
next
  case (Response status data)
  show ?thesis
  proof (cases "status = 200")
    case False
    with Response show ?thesis
      by (simp add: peer_answer_def Let_def)
  next
    case True
    show ?thesis
    proof (cases "ujson_loads env data")
      case None
      with Response True show ?thesis
        by (simp add: peer_answer_def Let_def)
    next
      case (Some post)
      show ?thesis
      proof (cases post)
        case (JObj kvs)
        show ?thesis
        proof (cases "map_of kvs ''format'' = Some (JStr ''json'')")
          case yes: True
          with Response True Some JObj show ?thesis
            by (simp add: peer_answer_def Let_def unwrap_post_def)
        next
          case no: False
          then have "unwrap_post post = Inl UnexpectedFormat"
            unfolding JObj by (auto simp: unwrap_post_def split: option.splits json.splits)
          with no Response True Some JObj show ?thesis
            by (simp add: peer_answer_def Let_def)
        qed
      qed (use Response True Some in
            \<open>simp_all add: peer_answer_def Let_def unwrap_post_def\<close>)
    qed
  qed
qed

lemma hosts_loop_first_answer:
  "hosts_loop env path hs =
     (case dropWhile (\<lambda>h. peer_answer env (peer_url env path h) = None) hs of
        [] \<Rightarrow> (Inr None, map (\<lambda>h. HttpGet (peer_url env path h)) hs)
      | h # _ \<Rightarrow>
          (Inr (peer_answer env (peer_url env path h)),
           map (\<lambda>h. HttpGet (peer_url env path h))
             (takeWhile (\<lambda>h. peer_answer env (peer_url env path h) = None) hs @ [h])))"
proof (induction hs)
  case Nil
  show ?case by simp
next
  case (Cons a hs)
  show ?case
  proof (cases "peer_answer env (peer_url env path a) = None")
    case True
    note IH = Cons.IH
    have dw: "dropWhile (\<lambda>h. peer_answer env (peer_url env path h) = None) (a # hs) =
              dropWhile (\<lambda>h. peer_answer env (peer_url env path h) = None) hs"
      and tw: "takeWhile (\<lambda>h. peer_answer env (peer_url env path h) = None) (a # hs) =
               a # takeWhile (\<lambda>h. peer_answer env (peer_url env path h) = None) hs"
      using True by simp_all
    show ?thesis
    proof (cases "dropWhile (\<lambda>h. peer_answer env (peer_url env path h) = None) hs")
      case Nil
      show ?thesis
        unfolding hosts_loop_step IH dw tw Nil using True by simp
    next
      case (Cons x xs)
      show ?thesis
        unfolding hosts_loop_step IH dw tw Cons using True by simp
    qed
  next
    case False
    then obtain y where y: "peer_answer env (peer_url env path a) = Some y"
      by auto
    show ?thesis
      unfolding hosts_loop_step by (simp add: y)
  qed
qed

text \<open>
  C7. Peer-host probe. For a uid that passes the checks, the probe asks the configured
  hosts in their order and stops at the first one whose answer counts: status 200 with
  a wrapper object of format \<^verbatim>\<open>json\<close>, whose content is what is returned. A host that
  answers 404 or any other status, cannot be reached, or sends a payload that does not
  parse or unwrap (\<open>peer_answer\<close> is \<open>None\<close> for all of these) is passed over and
  the next is asked; when no host has an answer the probe returns \<^verbatim>\<open>None\<close>, having
  asked every host. The probe never raises.
\<close>

theorem hosts_first_json_answer:
  assumes "spool_path msmt_uid = Inr path"
  shows "fetch_measurement_body_from_hosts env msmt_uid =
     (case dropWhile (\<lambda>h. peer_answer env (peer_url env path h) = None) (OTHER_COLLECTORS env) of
        [] \<Rightarrow> (Inr None, map (\<lambda>h. HttpGet (peer_url env path h)) (OTHER_COLLECTORS env))
      | h # _ \<Rightarrow>
          (Inr (peer_answer env (peer_url env path h)),
           map (\<lambda>h. HttpGet (peer_url env path h))
             (takeWhile (\<lambda>h. peer_answer env (peer_url env path h) = None)
                (OTHER_COLLECTORS env) @ [h])))"
  using assms by (simp add: fetch_measurement_body_from_hosts_def hosts_loop_first_answer)

text \<open>
  The first peer is unreachable and the second holds one of the two measurements asked
  for; both are asked, in order, each time.
\<close>

theorem hosts_first_json_answer_witness:
  "fetch_measurement_body_from_hosts env_example uid_on_peer =
     (Inr (Some ''{test_name: web_connectivity}''),
      [HttpGet ''https://ams-ps.ooni.nu/measurement_spool/2026110416_IT_webconnectivity/20261104164000_IT_webconnectivity_bbbb.post'',
       HttpGet ''https://backend-hel.ooni.org/measurement_spool/2026110416_IT_webconnectivity/20261104164000_IT_webconnectivity_bbbb.post'']) \<and>
   fetch_measurement_body_from_hosts env_example uid_in_spool =
     (Inr None,
      [HttpGet ''https://ams-ps.ooni.nu/measurement_spool/2026110416_IT_webconnectivity/20261104164000_IT_webconnectivity_aaaa.post'',
       HttpGet ''https://backend-hel.ooni.org/measurement_spool/2026110416_IT_webconnectivity/20261104164000_IT_webconnectivity_aaaa.post''])"
proof -
  have p1: "spool_path uid_on_peer =
     Inr ''2026110416_IT_webconnectivity/20261104164000_IT_webconnectivity_bbbb.post''"
    by (simp add: example_defs spool_path_def startswith_def int_parses_def strip_def
          isspace_def isdigit_def)
  have p2: "spool_path uid_in_spool =
     Inr ''2026110416_IT_webconnectivity/20261104164000_IT_webconnectivity_aaaa.post''"
    by (simp add: example_defs spool_path_def startswith_def int_parses_def strip_def
          isspace_def isdigit_def)
  from hosts_first_json_answer[OF p1, of env_example]
       hosts_first_json_answer[OF p2, of env_example]
  show ?thesis
    by (simp add: env_example_def loads_example_def dumps_example_def peer_answer_def
          peer_url_def)
qed

text \<open>
  C8. Archive locator by uid. When the query runs, one call to
  \<^verbatim>\<open>measurement_uid_to_s3path_linenum\<close> makes one query and either returns the
  coordinates of a single \<open>jsonl\<close> row whose report id and input are those of a
  \<open>fastpath\<close> row with the uid, or raises \<open>MsmtNotFound\<close>, and it raises exactly when
  no such pair of rows exists.
\<close>

theorem uid_lookup_joins:
  assumes "click_up env"
  shows "(case fst (measurement_uid_to_s3path_linenum env uid) of
            Inr (s3path, linenum) \<Rightarrow>
              \<exists>r i. (uid, r, i) \<in> set (fastpath env) \<and> (r, i, s3path, linenum) \<in> set (jsonl env)
          | Inl e \<Rightarrow>
              e = MsmtNotFound \<and>
              (\<forall>r i s l. (uid, r, i) \<in> set (fastpath env) \<longrightarrow> (r, i, s, l) \<notin> set (jsonl env))) \<and>
         snd (measurement_uid_to_s3path_linenum env uid) = [QueryByUid uid]"
proof -
  define pairs where "pairs = map snd (filter (\<lambda>row. fst row = uid) (fastpath env))"
  define lookup where "lookup = filter (\<lambda>(r, i, s, l). (r, i) \<in> set pairs) (jsonl env)"
  have pairs: "(r, i) \<in> set pairs \<longleftrightarrow> (uid, r, i) \<in> set (fastpath env)" for r i
    unfolding pairs_def by force
  have res: "measurement_uid_to_s3path_linenum env uid =
     (case lookup of
        [] \<Rightarrow> (Inl MsmtNotFound, [QueryByUid uid])
      | (r, i, s3path, linenum) # _ \<Rightarrow> (Inr (s3path, linenum), [QueryByUid uid]))"
    using assms by (simp add: measurement_uid_to_s3path_linenum_def pairs_def lookup_def)
  show ?thesis
  proof (cases lookup)
    case Nil
    then have "(r, i, s, l) \<in> set (jsonl env) \<Longrightarrow> (r, i) \<notin> set pairs" for r i s l
      unfolding lookup_def by (auto simp: filter_empty_conv)
    with pairs have "\<forall>r i s l. (uid, r, i) \<in> set (fastpath env) \<longrightarrow> (r, i, s, l) \<notin> set (jsonl env)"
      by blast
    with Nil show ?thesis by (simp add: res uid_lookup_events)
  next
    case (Cons row rows)
    obtain r i s l where row: "row = (r, i, s, l)" by (cases row)
    have "row \<in> set lookup" using Cons by simp
    then have "(r, i, s, l) \<in> set (jsonl env)" "(r, i) \<in> set pairs"
      unfolding lookup_def row by auto
    with pairs have "\<exists>r i. (uid, r, i) \<in> set (fastpath env) \<and> (r, i, s, l) \<in> set (jsonl env)"
      by blast
    with Cons row show ?thesis by (simp add: res uid_lookup_events)
  qed
qed

text \<open>The measurement in the archive is located; the one held by the spool only is not.\<close>

theorem uid_lookup_joins_witness:
  "measurement_uid_to_s3path_linenum env_example uid_in_archive =
     (Inr (''raw/20261104/16/IT/webconnectivity/2026110416_IT_webconnectivity.n1.0.jsonl.gz'', 1),
      [QueryByUid ''20261104164000_IT_webconnectivity_cccc'']) \<and>
   measurement_uid_to_s3path_linenum env_example uid_in_spool =
     (Inl MsmtNotFound, [QueryByUid ''20261104164000_IT_webconnectivity_aaaa''])"
proof -
  have up: "click_up env_example" by (simp add: env_example_def)
  from uid_lookup_joins[OF up, of uid_in_archive] uid_lookup_joins[OF up, of uid_in_spool]
  show ?thesis
    by (simp add: example_defs measurement_uid_to_s3path_linenum_def)
qed

text \<open>
  Comparing a string with a shorter one of known length, and the length of the rendered
  time.
\<close>

lemma less_iff_le_take:
  fixes a b :: "'a::linorder list"
  shows "length a = n \<Longrightarrow> n < length b \<Longrightarrow> (a < b) = (a \<le> take n b)"
proof (induction a arbitrary: b n)
  case Nil
  then show ?case by (cases b) auto
next
  case (Cons x a)
  then obtain y b' where b: "b = y # b'" by (cases b) auto
  obtain m where n: "n = Suc m" using Cons.prems(1) by (cases n) auto
  from Cons.prems have "length a = m" "m < length b'" by (auto simp: b n)
  from Cons.IH[OF this] show ?case by (simp add: b n)
qed

lemma length_strftime_YmdHM: "length (strftime_YmdHM dt) = 12"
  by (simp add: strftime_YmdHM_def digits2_def digits4_def)

text \<open>
  C9, as stated, fails in both directions. At 16:50:45 a uid stamped 15:50:30 is more
  than an hour old and is classified fresh, because the rendered time has no seconds; and
  a uid stamped ten minutes ago is within the hour and is not classified fresh when the
  report id is in an older format.
\<close>

theorem fresh_is_not_last_hour_counterexample:
  "classified_fresh now_example report_id_example (Some ''20261104155030_IT_webconnectivity_dddd'') \<and>
   \<not> within_last_hour now_example ''20261104155030_IT_webconnectivity_dddd'' \<and>
   \<not> classified_fresh now_example old_report_id_example (Some uid_in_spool) \<and>
   within_last_hour now_example uid_in_spool"
  by (simp add: classified_fresh_def new_format_def truthy_def fresh_def strftime_YmdHM_def
        minus_one_hour_def digits2_def digits4_def digit_def example_defs within_last_hour_def
        uid_timestamp_def number_def dt_stamp_def isdigit_def)

text \<open>
  C9, amended. A request is classified fresh exactly when its report id has five
  underscores, its uid is given and not empty, and the uid is greater, as a string, than
  the twelve digits (year to minute) of the time one hour before the current UTC time.
  For a uid longer than twelve characters this is the case exactly when its first twelve
  characters are not below those digits: the comparison is by the minute and has no
  upper end. The flag is computed once and passed to the choice of the order.
\<close>

theorem fresh_classification:
  "(classified_fresh now report_id measurement_uid \<longleftrightarrow>
      count_list report_id CHR ''_'' = 5 \<and>
      (\<exists>uid. measurement_uid = Some uid \<and> uid \<noteq> [] \<and>
             strftime_YmdHM (minus_one_hour now) < uid)) \<and>
   (12 < length uid \<longrightarrow>
      (fresh now uid \<longleftrightarrow> strftime_YmdHM (minus_one_hour now) \<le> take 12 uid)) \<and>
   fetch_measurement_body env now report_id input measurement_uid =
     fetch_in_order (new_format report_id measurement_uid)
       (classified_fresh now report_id measurement_uid)
       (fetch_measurement_body_on_disk_by_msmt_uid env
          (case measurement_uid of None \<Rightarrow> [] | Some u \<Rightarrow> u))
       (fetch_measurement_body_from_hosts env
          (case measurement_uid of None \<Rightarrow> [] | Some u \<Rightarrow> u))
       (fetch_jsonl_measurement_body_clickhouse env report_id input measurement_uid)"
proof (intro conjI impI)
  show "classified_fresh now report_id measurement_uid \<longleftrightarrow>
      count_list report_id CHR ''_'' = 5 \<and>
      (\<exists>uid. measurement_uid = Some uid \<and> uid \<noteq> [] \<and>
             strftime_YmdHM (minus_one_hour now) < uid)"
    by (cases measurement_uid)
       (auto simp: classified_fresh_def new_format_def truthy_def fresh_def)
  show "fresh now uid \<longleftrightarrow> strftime_YmdHM (minus_one_hour now) \<le> take 12 uid"
    if "12 < length uid"
    unfolding fresh_def
    by (rule less_iff_le_take[OF length_strftime_YmdHM that])
  show "fetch_measurement_body env now report_id input measurement_uid =
     fetch_in_order (new_format report_id measurement_uid)
       (classified_fresh now report_id measurement_uid)
       (fetch_measurement_body_on_disk_by_msmt_uid env
          (case measurement_uid of None \<Rightarrow> [] | Some u \<Rightarrow> u))
       (fetch_measurement_body_from_hosts env
          (case measurement_uid of None \<Rightarrow> [] | Some u \<Rightarrow> u))
       (fetch_jsonl_measurement_body_clickhouse env report_id input measurement_uid)"
    by (simp add: fetch_measurement_body_def classified_fresh_def Let_def)
qed

text \<open>
  At 16:50:45 the limit is \<^verbatim>\<open>202611041550\<close>: a uid stamped 15:50:30 is fresh, one
  stamped 15:49:59 is not, and one stamped in the year 2099 is.
\<close>

theorem fresh_classification_witness:
  "fresh now_example ''20261104155030_IT_webconnectivity_dddd'' \<and>
   \<not> fresh now_example ''20261104154959_IT_webconnectivity_dddd'' \<and>
   fresh now_example ''20991231235959_IT_webconnectivity_dddd''"
proof -
  have ts: "strftime_YmdHM (minus_one_hour now_example) = ''202611041550''"
    by (simp add: strftime_YmdHM_def minus_one_hour_def digits2_def digits4_def digit_def
          now_example_def)
  from fresh_classification[of now_example _ _ "''20261104155030_IT_webconnectivity_dddd''"]
       fresh_classification[of now_example _ _ "''20261104154959_IT_webconnectivity_dddd''"]
       fresh_classification[of now_example _ _ "''20991231235959_IT_webconnectivity_dddd''"]
  show ?thesis
    unfolding ts by simp
qed

end
